theory Spec2Isabelle
  imports Complex_Main "HOL-Library.AList"
begin

section \<open>JavaScript values, strings and exceptions\<close>

text \<open>
  The two handlers of \<^verbatim>\<open>api/food-scan\<close> are embedded as HOL functions.  A JavaScript
  string is a \<^typ>\<open>string\<close>: a list of code units, of which the model covers the
  units below 256 (Node decodes header values as Latin-1; base64 text is ASCII).
  A value that came out of \<^verbatim>\<open>JSON.parse\<close> (a request body, an upstream reply) is a
  \<^verbatim>\<open>js_value\<close>; numbers are rationals, of which the code only observes whether
  they are zero.  A thrown exception is the left injection of a sum.
\<close>

datatype js_error =
    Error (message: string)
  | TypeError (message: string)
  | SyntaxError (message: string)

datatype js_value =
    Undefined
  | Null
  | Bool bool
  | Num rat
  | Str string
  | Arr "js_value list"
  | Obj "(string \<times> js_value) list"

text \<open>\<^verbatim>\<open>!v\<close> is \<open>\<not> truthy v\<close>.\<close>

fun truthy :: "js_value \<Rightarrow> bool" where
  "truthy Undefined = False"
| "truthy Null = False"
| "truthy (Bool b) = b"
| "truthy (Num r) = (r \<noteq> 0)"
| "truthy (Str s) = (s \<noteq> [])"
| "truthy (Arr xs) = True"
| "truthy (Obj kvs) = True"

fun nullish :: "js_value \<Rightarrow> bool" where
  "nullish Undefined = True"
| "nullish Null = True"
| "nullish v = False"

text \<open>
  The decimal numeral of a natural number, as a template literal or a property key
  prints it.
\<close>

definition digit_char :: "nat \<Rightarrow> char" where
  "digit_char d = char_of (48 + d)"

fun string_of_nat :: "nat \<Rightarrow> string" where
  "string_of_nat n =
     (if n < 10 then [digit_char n] else string_of_nat (n div 10) @ [digit_char (n mod 10)])"

declare string_of_nat.simps [simp del]

text \<open>
  Property reads \<^verbatim>\<open>v.key\<close> for the keys the handlers use (\<^verbatim>\<open>candidates\<close>,
  \<^verbatim>\<open>content\<close>, \<^verbatim>\<open>parts\<close>, \<^verbatim>\<open>text\<close>, \<^verbatim>\<open>length\<close>, \<^verbatim>\<open>detected\<close>,
  \<^verbatim>\<open>items\<close>, \<^verbatim>\<open>imageBase64\<close>, \<^verbatim>\<open>mimeType\<close>), none of which is inherited from a
  prototype other than \<^verbatim>\<open>length\<close> of strings and arrays.  Reading a property of
  \<^verbatim>\<open>undefined\<close> or \<^verbatim>\<open>null\<close> throws a \<^verbatim>\<open>TypeError\<close> (the message is V8's).
\<close>

fun own_prop :: "js_value \<Rightarrow> string \<Rightarrow> js_value" where
  "own_prop (Str s) key = (if key = ''length'' then Num (of_nat (length s)) else Undefined)"
| "own_prop (Arr xs) key = (if key = ''length'' then Num (of_nat (length xs)) else Undefined)"
| "own_prop (Obj kvs) key = (case map_of kvs key of None \<Rightarrow> Undefined | Some v \<Rightarrow> v)"
| "own_prop v key = Undefined"

definition get_prop :: "js_value \<Rightarrow> string \<Rightarrow> js_error + js_value" where
  "get_prop v key =
     (if v = Undefined then
        Inl (TypeError (''Cannot read properties of undefined (reading '' @ [CHR 0x27] @ key @ [CHR 0x27] @ '')''))
      else if v = Null then
        Inl (TypeError (''Cannot read properties of null (reading '' @ [CHR 0x27] @ key @ [CHR 0x27] @ '')''))
      else Inr (own_prop v key))"

text \<open>Optional chaining \<^verbatim>\<open>v?.key\<close>.\<close>

definition get_prop_opt :: "js_value \<Rightarrow> string \<Rightarrow> js_value" where
  "get_prop_opt v key = (if nullish v then Undefined else own_prop v key)"

text \<open>
  Indexed reads \<^verbatim>\<open>v[i]\<close> of a value that is neither \<^verbatim>\<open>undefined\<close> nor \<^verbatim>\<open>null\<close>:
  an element of an array, a one-unit string of a string, the property named by the
  numeral of an object.
\<close>

fun get_index :: "js_value \<Rightarrow> nat \<Rightarrow> js_value" where
  "get_index (Arr xs) i = (if i < length xs then xs ! i else Undefined)"
| "get_index (Str s) i = (if i < length s then Str [s ! i] else Undefined)"
| "get_index (Obj kvs) i =
     (case map_of kvs (string_of_nat i) of None \<Rightarrow> Undefined | Some v \<Rightarrow> v)"
| "get_index v i = Undefined"

text \<open>
  White space as \<^verbatim>\<open>\s\<close> and \<^verbatim>\<open>String.prototype.trim\<close> see it (tab, line feed,
  vertical tab, form feed, carriage return, space, no-break space), and the line
  terminators that \<^verbatim>\<open>.\<close> does not match.
\<close>

definition is_space :: "char \<Rightarrow> bool" where
  "is_space c \<longleftrightarrow> c \<in> set [CHR 0x09, CHR 0x0A, CHR 0x0B, CHR 0x0C, CHR 0x0D, CHR 0x20, CHR 0xA0]"

definition is_line_terminator :: "char \<Rightarrow> bool" where
  "is_line_terminator c \<longleftrightarrow> c = CHR 0x0A \<or> c = CHR 0x0D"

definition trim :: "string \<Rightarrow> string" where
  "trim s = rev (dropWhile is_space (rev (dropWhile is_space s)))"

fun startsWith :: "string \<Rightarrow> string \<Rightarrow> bool" where
  "startsWith s [] = True"
| "startsWith [] (p # ps) = False"
| "startsWith (c # cs) (p # ps) = (c = p \<and> startsWith cs ps)"

text \<open>\<^verbatim>\<open>s.includes(sub)\<close>: \<open>sub\<close> occurs in \<open>s\<close> as a contiguous substring.\<close>

fun string_includes :: "string \<Rightarrow> string \<Rightarrow> bool" where
  "string_includes [] sub = (sub = [])"
| "string_includes (c # cs) sub = (startsWith (c # cs) sub \<or> string_includes cs sub)"

section \<open>The rate limiter\<close>

record rate_limit_entry =
  windowStart :: int
  count :: nat

text \<open>
  \<^verbatim>\<open>rateLimitStore\<close> is a JavaScript \<^verbatim>\<open>Map\<close>: an association list in insertion
  order, whose keys are distinct.
\<close>

type_synonym rate_limit_store = "(string \<times> rate_limit_entry) list"

definition RATE_LIMIT_WINDOW :: int where
  "RATE_LIMIT_WINDOW = 60 * 1000"

definition RATE_LIMIT_MAX_REQUESTS :: nat where
  "RATE_LIMIT_MAX_REQUESTS = 10"

text \<open>
  \<^verbatim>\<open>cleanupRateLimitStore\<close> reads the clock once (\<open>now\<close>), then visits every entry of
  the map and deletes the visited key when its window started more than
  \<open>RATE_LIMIT_WINDOW\<close> milliseconds ago.
\<close>

definition cleanupRateLimitStore :: "int \<Rightarrow> rate_limit_store \<Rightarrow> rate_limit_store" where
  "cleanupRateLimitStore now store =
     fold (\<lambda>(ip, data) s.
             if now - windowStart data > RATE_LIMIT_WINDOW then AList.delete ip s else s)
          store store"

text \<open>
  \<^verbatim>\<open>isRateLimited\<close> reads the clock a second time after the cleanup; the two readings
  are the parameters \<open>now_cleanup\<close> and \<open>now\<close>.  It returns the answer and the
  updated map.
\<close>

definition isRateLimited ::
  "int \<Rightarrow> int \<Rightarrow> string \<Rightarrow> rate_limit_store \<Rightarrow> bool \<times> rate_limit_store" where
  "isRateLimited now_cleanup now ip store0 =
     (let store = cleanupRateLimitStore now_cleanup store0 in
      case map_of store ip of
        None \<Rightarrow> (False, AList.update ip \<lparr>windowStart = now, count = 1\<rparr> store)
      | Some clientData \<Rightarrow>
          if now - windowStart clientData < RATE_LIMIT_WINDOW then
            if count clientData \<ge> RATE_LIMIT_MAX_REQUESTS then (True, store)
            else (False, AList.update ip (clientData\<lparr>count := count clientData + 1\<rparr>) store)
          else (False, AList.update ip (clientData\<lparr>windowStart := now, count := 1\<rparr>) store))"

section \<open>Requests and responses\<close>

text \<open>
  What the handlers read of \<^verbatim>\<open>req\<close>: the method, the headers, the address of the
  connection (\<^verbatim>\<open>req.connection?.remoteAddress\<close>) and the parsed body
  (\<open>Undefined\<close> when the request has none).
\<close>

record request =
  req_method :: string
  req_headers :: "string \<rightharpoonup> string"
  remoteAddress :: "string option"
  req_body :: js_value

text \<open>
  What the handlers write to \<^verbatim>\<open>res\<close>: the status, the headers in the order they were
  first set, and the JSON body (\<open>None\<close> for \<^verbatim>\<open>end()\<close> with no body).
\<close>

record response =
  res_status :: nat
  res_headers :: "(string \<times> string) list"
  res_body :: "js_value option"

definition new_response :: response where
  "new_response = \<lparr>res_status = 200, res_headers = [], res_body = None\<rparr>"

definition setHeader :: "string \<Rightarrow> string \<Rightarrow> response \<Rightarrow> response" where
  "setHeader name v res = res\<lparr>res_headers := AList.update name v (res_headers res)\<rparr>"

definition status_json :: "nat \<Rightarrow> js_value \<Rightarrow> response \<Rightarrow> response" where
  "status_json code v res = res\<lparr>res_status := code, res_body := Some v\<rparr>"

definition status_end :: "nat \<Rightarrow> response \<Rightarrow> response" where
  "status_end code res = res\<lparr>res_status := code, res_body := None\<rparr>"

definition ALLOWED_ORIGIN :: string where
  "ALLOWED_ORIGIN = ''https://eray464646.github.io''"

section \<open>The health handler\<close>

definition setCorsHeaders_health :: "response \<Rightarrow> response" where
  "setCorsHeaders_health res =
     setHeader ''Vary'' ''Origin''
       (setHeader ''Access-Control-Allow-Headers'' ''Content-Type, Authorization''
         (setHeader ''Access-Control-Allow-Methods'' ''GET, OPTIONS''
           (setHeader ''Access-Control-Allow-Origin'' ALLOWED_ORIGIN res)))"

text \<open>
  \<^verbatim>\<open>Boolean(process.env.GEMINI_API_KEY)\<close> and \<^verbatim>\<open>!apiKey\<close>: an environment variable is
  a string or is not set, and the empty string is falsy.
\<close>

definition isConfigured :: "string option \<Rightarrow> bool" where
  "isConfigured key = (case key of None \<Rightarrow> False | Some k \<Rightarrow> k \<noteq> [])"

definition handler_health :: "string option \<Rightarrow> request \<Rightarrow> response" where
  "handler_health GEMINI_API_KEY req =
     (let res = setCorsHeaders_health new_response in
      if req_method req = ''OPTIONS'' then status_end 200 res
      else if req_method req \<noteq> ''GET'' then
        status_json 405 (Obj [(''error'', Str ''Method not allowed'')]) res
      else
        status_json 200
          (Obj [(''ok'', Bool True), (''provider'', Str ''gemini''),
                (''configured'', Bool (isConfigured GEMINI_API_KEY))]) res)"

section \<open>The scan handler\<close>

definition GEMINI_API_BASE :: string where
  "GEMINI_API_BASE = ''https://generativelanguage.googleapis.com/v1beta/models''"

definition GEMINI_MODEL :: string where
  "GEMINI_MODEL = ''gemini-1.5-flash''"

definition setCorsHeaders_scan :: "response \<Rightarrow> response" where
  "setCorsHeaders_scan res =
     setHeader ''Vary'' ''Origin''
       (setHeader ''Access-Control-Allow-Headers'' ''Content-Type, Authorization''
         (setHeader ''Access-Control-Allow-Methods'' ''POST, OPTIONS''
           (setHeader ''Access-Control-Allow-Origin'' ALLOWED_ORIGIN res)))"

text \<open>
  \<^verbatim>\<open>getClientIp\<close>: the first operand of the \<^verbatim>\<open>||\<close> chain that is a non-empty string.
  \<^verbatim>\<open>split(',')[0]\<close> is the text before the first comma.
\<close>

definition getClientIp :: "request \<Rightarrow> string" where
  "getClientIp req =
     (let forwarded = (case req_headers req ''x-forwarded-for'' of
                         None \<Rightarrow> []
                       | Some h \<Rightarrow> trim (takeWhile (\<lambda>c. c \<noteq> CHR '','') h));
          real_ip = (case req_headers req ''x-real-ip'' of None \<Rightarrow> [] | Some h \<Rightarrow> h);
          remote = (case remoteAddress req of None \<Rightarrow> [] | Some a \<Rightarrow> a)
      in if forwarded \<noteq> [] then forwarded
         else if real_ip \<noteq> [] then real_ip
         else if remote \<noteq> [] then remote
         else ''unknown'')"

subsection \<open>Input validation\<close>

definition is_subtype_char :: "char \<Rightarrow> bool" where
  "is_subtype_char c \<longleftrightarrow>
     (let n = (of_char c :: nat) in (97 \<le> n \<and> n \<le> 122) \<or> (65 \<le> n \<and> n \<le> 90) \<or> n = 43)"

text \<open>
  The match of \<^verbatim>\<open>/^data:image\/[a-zA-Z+]+;base64,(.+)$/\<close>, giving group 1: after
  \<^verbatim>\<open>data:image/\<close> the longest run of letters and \<^verbatim>\<open>+\<close> (not empty), then
  \<^verbatim>\<open>;base64,\<close>, then one or more characters, none a line terminator, to the end.
\<close>

definition match_data_url :: "string \<Rightarrow> string option" where
  "match_data_url s =
     (if startsWith s ''data:image/'' then
        (let r = drop (length ''data:image/'') s;
             subtype = takeWhile is_subtype_char r;
             r' = dropWhile is_subtype_char r
         in if subtype \<noteq> [] \<and> startsWith r' '';base64,'' then
              (let payload = drop (length '';base64,'') r'
               in if payload \<noteq> [] \<and> list_all (\<lambda>c. \<not> is_line_terminator c) payload
                  then Some payload else None)
            else None)
      else None)"

text \<open>
  \<^verbatim>\<open>stripDataUrlPrefix\<close>.  A truthy value that is not a string has no \<^verbatim>\<open>match\<close>
  method, and the call throws.
\<close>

definition stripDataUrlPrefix :: "js_value \<Rightarrow> js_error + string" where
  "stripDataUrlPrefix imageBase64 =
     (if \<not> truthy imageBase64 then Inr []
      else case imageBase64 of
        Str s \<Rightarrow> (case match_data_url s of Some payload \<Rightarrow> Inr payload | None \<Rightarrow> Inr s)
      | _ \<Rightarrow> Inl (TypeError ''imageBase64.match is not a function''))"

record validation =
  valid :: bool
  errors :: "string list"
  cleanBase64 :: string

fun join :: "string \<Rightarrow> string list \<Rightarrow> string" where
  "join sep [] = []"
| "join sep [x] = x"
| "join sep (x # y # ys) = x @ sep @ join sep (y # ys)"

definition allowedMimeTypes :: "string list" where
  "allowedMimeTypes = [''image/jpeg'', ''image/png'']"

definition maxSizeMB :: nat where
  "maxSizeMB = 10"

definition maxSizeBytes :: nat where
  "maxSizeBytes = maxSizeMB * 1024 * 1024"

text \<open>
  The estimate \<^verbatim>\<open>(cleanBase64.length * 3) / 4\<close> is a floating-point quotient, exact
  for every length a string can have: a rational.
\<close>

definition estimatedSizeBytes :: "string \<Rightarrow> rat" where
  "estimatedSizeBytes clean = of_nat (length clean * 3) / 4"

definition validateImagePayload :: "js_value \<Rightarrow> js_value \<Rightarrow> js_error + validation" where
  "validateImagePayload imageBase64 mimeType =
     (let errors1 =
            (if \<not> truthy mimeType \<or> mimeType \<notin> set (map Str allowedMimeTypes)
             then [''Invalid mimeType. Allowed: '' @ join '', '' allowedMimeTypes] else []);
          errors2 = errors1 @ (if \<not> truthy imageBase64 then [''imageBase64 is required''] else [])
      in case stripDataUrlPrefix imageBase64 of
           Inl e \<Rightarrow> Inl e
         | Inr clean \<Rightarrow>
             (let errors3 = errors2 @
                    (if estimatedSizeBytes clean > of_nat maxSizeBytes
                     then [''Image too large. Max size: '' @ string_of_nat maxSizeMB @ ''MB'']
                     else [])
              in Inr \<lparr>valid = (length errors3 = 0), errors = errors3, cleanBase64 = clean\<rparr>))"

subsection \<open>The upstream call\<close>

text \<open>
  \<^verbatim>\<open>fetch\<close> is the platform's: a parameter.  It rejects with an exception or resolves
  with a response, of which the code reads \<^verbatim>\<open>ok\<close>, \<^verbatim>\<open>status\<close>, and what \<^verbatim>\<open>text()\<close>
  and \<^verbatim>\<open>json()\<close> give (each a value or an exception).  The request records the URL,
  the method, the headers and the value handed to \<^verbatim>\<open>JSON.stringify\<close> for the body.
\<close>

record fetch_request =
  url :: string
  fetch_method :: string
  fetch_headers :: "(string \<times> string) list"
  fetch_body :: js_value

record http_response =
  ok :: bool
  status :: nat
  text_result :: "js_error + string"
  json_result :: "js_error + js_value"

datatype fetch_outcome = Rejected js_error | Resolved http_response

definition prompt :: string where
  "prompt = join [CHR 0x0A]
     [''Analyze this food image and return ONLY a valid JSON object (no markdown, no code blocks).'',
      [],
      ''Detect ALL food items visible in the image. For each item provide:'',
      ''- name: food item name'',
      ''- quantity: estimated amount (e.g., \"1 cup\", \"2 slices\", \"100g\")'',
      ''- confidence: detection confidence (0-100)'',
      ''- calories: estimated calories (best effort)'',
      ''- protein: grams of protein (best effort)'',
      ''- carbs: grams of carbohydrates (best effort)'',
      ''- fat: grams of fat (best effort)'',
      [],
      ''Return the JSON in this exact structure:'',
      ''{'',
      ''  \"detected\": true or false,'',
      ''  \"items\": ['',
      ''    {'',
      ''      \"name\": \"food name\",'',
      ''      \"quantity\": \"amount\",'',
      ''      \"confidence\": 85,'',
      ''      \"calories\": 150,'',
      ''      \"protein\": 5,'',
      ''      \"carbs\": 20,'',
      ''      \"fat\": 6'',
      ''    }'',
      ''  ],'',
      ''  \"totals\": {'',
      ''    \"calories\": sum of all items,'',
      ''    \"protein\": sum,'',
      ''    \"carbs\": sum,'',
      ''    \"fat\": sum'',
      ''  },'',
      ''  \"notes\": \"any relevant observations or uncertainties\"'',
      ''}'',
      [],
      ''If you are uncertain about nutritional values, provide your best estimate and note the uncertainty in \"notes\".'',
      ''Only set \"detected\" to false if you are confident there is NO food in the image.'',
      ''If you see food but are uncertain about details, still set \"detected\" to true with low confidence values.'']"

definition geminiRequest :: "string \<Rightarrow> js_value \<Rightarrow> string \<Rightarrow> fetch_request" where
  "geminiRequest imageBase64 mimeType apiKey =
     \<lparr>url = GEMINI_API_BASE @ ''/'' @ GEMINI_MODEL @ '':generateContent?key='' @ apiKey,
      fetch_method = ''POST'',
      fetch_headers = [(''Content-Type'', ''application/json'')],
      fetch_body =
        Obj [(''contents'',
               Arr [Obj [(''parts'',
                  Arr [Obj [(''text'', Str prompt)],
                       Obj [(''inlineData'',
                              Obj [(''mimeType'', mimeType), (''data'', Str imageBase64)])]])]]),
             (''generationConfig'',
               Obj [(''temperature'', Num (4 / 10)), (''topK'', Num 32), (''topP'', Num 1),
                    (''maxOutputTokens'', Num 2048)])]\<rparr>"

text \<open>
  \<^verbatim>\<open>callGeminiVision\<close> sends one request; the result is the reply value or the
  exception thrown.
\<close>

definition callGeminiVision ::
  "(fetch_request \<Rightarrow> fetch_outcome) \<Rightarrow> string \<Rightarrow> js_value \<Rightarrow> string \<Rightarrow> js_error + js_value" where
  "callGeminiVision fetch imageBase64 mimeType apiKey =
     (case fetch (geminiRequest imageBase64 mimeType apiKey) of
        Rejected e \<Rightarrow> Inl e
      | Resolved response \<Rightarrow>
          if \<not> ok response then
            (case text_result response of
               Inl e \<Rightarrow> Inl e
             | Inr errorText \<Rightarrow>
                 Inl (Error (''Gemini API error ('' @ string_of_nat (status response) @ ''): ''
                             @ take 200 errorText)))
          else json_result response)"

subsection \<open>Response normalization\<close>

text \<open>
  \<^verbatim>\<open>s.replace(/<fence>\s*/g, '')\<close> for a literal fence: every occurrence of the fence,
  found from left to right, is deleted with the white space that follows it.
\<close>

function replace_fence :: "string \<Rightarrow> string \<Rightarrow> string" where
  "replace_fence fence [] = []"
| "replace_fence fence (c # cs) =
     (if fence \<noteq> [] \<and> startsWith (c # cs) fence
      then replace_fence fence (dropWhile is_space (drop (length fence) (c # cs)))
      else c # replace_fence fence cs)"
  by pat_completeness auto
termination
proof (relation "measure (\<lambda>(fence, s). length s)")
  show "wf (measure (\<lambda>(fence, s). length s))" by simp
next
  fix fence :: string and c :: char and cs :: string
  assume "fence \<noteq> [] \<and> startsWith (c # cs) fence"
  then have "0 < length fence" by simp
  moreover have "length (dropWhile is_space (drop (length fence) (c # cs)))
      \<le> length (drop (length fence) (c # cs))"
    by (rule length_dropWhile_le)
  ultimately show "((fence, dropWhile is_space (drop (length fence) (c # cs))), (fence, c # cs))
      \<in> measure (\<lambda>(fence, s). length s)"
    by (cases fence) auto
next
  fix fence :: string and c :: char and cs :: string
  show "((fence, cs), (fence, c # cs)) \<in> measure (\<lambda>(fence, s). length s)" by simp
qed

text \<open>
  The match of \<^verbatim>\<open>/\{[\s\S]*\}/\<close>: from the first \<^verbatim>\<open>{\<close> to the last \<^verbatim>\<open>}\<close> after it.
\<close>

definition match_json_object :: "string \<Rightarrow> string option" where
  "match_json_object s =
     (let t = dropWhile (\<lambda>c. c \<noteq> CHR ''{'') s in
      if t = [] then None
      else (let r = rev (dropWhile (\<lambda>c. c \<noteq> CHR ''}'') (rev (tl t))) in
            if r = [] then None else Some (CHR ''{'' # r)))"

definition is_array :: "js_value \<Rightarrow> bool" where
  "is_array v = (case v of Arr xs \<Rightarrow> True | _ \<Rightarrow> False)"

text \<open>
  \<^verbatim>\<open>candidates[0]?.content?.parts\<close> and \<^verbatim>\<open>parts[0]?.text || ''\<close>, for a truthy
  \<^verbatim>\<open>candidates\<close> and a truthy \<^verbatim>\<open>parts\<close>.
\<close>

definition first_parts :: "js_value \<Rightarrow> js_value" where
  "first_parts candidates =
     get_prop_opt (get_prop_opt (get_index candidates 0) ''content'') ''parts''"

definition first_text :: "js_value \<Rightarrow> js_value" where
  "first_text parts =
     (let t = get_prop_opt (get_index parts 0) ''text'' in if truthy t then t else Str [])"

text \<open>
  The two \<^verbatim>\<open>replace\<close> calls that remove the Markdown code fences.
\<close>

definition strip_fences :: "string \<Rightarrow> string" where
  "strip_fences s = replace_fence ''```'' (replace_fence ''```json'' s)"

text \<open>
  The body of the \<^verbatim>\<open>try\<close> block of \<^verbatim>\<open>parseGeminiResponse\<close>.  \<^verbatim>\<open>JSON.parse\<close> is the
  platform's: a parameter.  Its argument starts with \<^verbatim>\<open>{\<close>, for which it throws or
  returns an object, so the parameter gives the exception or the object's
  properties.  Calling \<^verbatim>\<open>replace\<close> on a text that is not a string throws.
\<close>

definition parseGeminiResponse_try ::
  "(string \<Rightarrow> js_error + (string \<times> js_value) list) \<Rightarrow> js_value \<Rightarrow> js_error + js_value" where
  "parseGeminiResponse_try JSON_parse geminiResponse =
     (case get_prop geminiResponse ''candidates'' of
        Inl e \<Rightarrow> Inl e
      | Inr candidates \<Rightarrow>
          if \<not> truthy candidates \<or> own_prop candidates ''length'' = Num 0 then
            Inl (Error ''No candidates in Gemini response'')
          else if \<not> truthy (first_parts candidates)
                  \<or> own_prop (first_parts candidates) ''length'' = Num 0 then
            Inl (Error ''No parts in Gemini response'')
          else
            (case first_text (first_parts candidates) of
               Str textContent \<Rightarrow>
                 (case match_json_object (strip_fences textContent) of
                    None \<Rightarrow> Inl (Error ''No JSON object found in response'')
                  | Some jsonMatch \<Rightarrow>
                      (case JSON_parse jsonMatch of
                         Inl e \<Rightarrow> Inl e
                       | Inr parsedJson \<Rightarrow>
                           (let parsed1 =
                                  (if map_of parsedJson ''detected'' = None
                                   then AList.update ''detected'' (Bool True) parsedJson
                                   else parsedJson);
                                parsed2 =
                                  (if \<not> is_array (own_prop (Obj parsed1) ''items'')
                                   then AList.update ''items'' (Arr []) parsed1
                                   else parsed1)
                            in Inr (Obj parsed2))))
             | _ \<Rightarrow> Inl (TypeError ''textContent.replace is not a function'')))"

definition fallback :: "string \<Rightarrow> js_value" where
  "fallback msg =
     Obj [(''detected'', Bool True), (''items'', Arr []),
          (''notes'', Str ''Model returned non-JSON output; please confirm manually.''),
          (''parseError'', Str msg)]"

definition parseGeminiResponse ::
  "(string \<Rightarrow> js_error + (string \<times> js_value) list) \<Rightarrow> js_value \<Rightarrow> js_value" where
  "parseGeminiResponse JSON_parse geminiResponse =
     (case parseGeminiResponse_try JSON_parse geminiResponse of
        Inr parsedJson \<Rightarrow> parsedJson
      | Inl error \<Rightarrow> fallback (message error))"

subsection \<open>The handler\<close>

text \<open>
  What one invocation reads from outside the request: the credential in the process
  environment, the two clock readings of \<^verbatim>\<open>isRateLimited\<close>, and the platform's
  \<^verbatim>\<open>fetch\<close> and \<^verbatim>\<open>JSON.parse\<close>.
\<close>

record runtime =
  GEMINI_API_KEY :: "string option"
  now_cleanup :: int
  now_lookup :: int
  fetch :: "fetch_request \<Rightarrow> fetch_outcome"
  JSON_parse :: "string \<Rightarrow> js_error + (string \<times> js_value) list"

text \<open>
  What one invocation leaves: the response, the rate-limit map, and the upstream
  requests it sent.
\<close>

record outcome =
  response :: response
  store_after :: rate_limit_store
  upstream_calls :: "fetch_request list"

text \<open>The \<^verbatim>\<open>catch\<close> block of the handler.\<close>

definition handler_scan_catch :: "js_error \<Rightarrow> response \<Rightarrow> response" where
  "handler_scan_catch error res =
     (if string_includes (message error) ''Gemini API error'' then
        status_json 502
          (Obj [(''error'', Str ''External API error''), (''message'', Str (message error))]) res
      else if string_includes (message error) ''fetch'' then
        status_json 500
          (Obj [(''error'', Str ''Network error''),
                (''message'', Str ''Failed to connect to Gemini API'')]) res
      else
        status_json 500
          (Obj [(''error'', Str ''Internal server error''),
                (''message'', Str ''An unexpected error occurred'')]) res)"

text \<open>
  \<^verbatim>\<open>const { imageBase64, mimeType } = req.body\<close> throws when the body is \<^verbatim>\<open>undefined\<close>
  or \<^verbatim>\<open>null\<close>.
\<close>

definition destructure_body :: "js_value \<Rightarrow> js_error + js_value \<times> js_value" where
  "destructure_body b =
     (if b = Undefined then
        Inl (TypeError (''Cannot destructure property '' @ [CHR 0x27] @ ''imageBase64'' @ [CHR 0x27]
                        @ '' of '' @ [CHR 0x27] @ ''req.body'' @ [CHR 0x27] @ '' as it is undefined.''))
      else if b = Null then
        Inl (TypeError (''Cannot destructure property '' @ [CHR 0x27] @ ''imageBase64'' @ [CHR 0x27]
                        @ '' of '' @ [CHR 0x27] @ ''req.body'' @ [CHR 0x27] @ '' as it is null.''))
      else Inr (own_prop b ''imageBase64'', own_prop b ''mimeType''))"

text \<open>
  The statements of the \<^verbatim>\<open>try\<close> block that follow the rate limiter: reading the body,
  validation, the upstream call and normalization, with the \<^verbatim>\<open>catch\<close> block applied
  to what they throw.  The result is the response and the upstream requests sent.
\<close>

definition handler_scan_steps ::
  "runtime \<Rightarrow> string \<Rightarrow> js_value \<Rightarrow> response \<Rightarrow> response \<times> fetch_request list" where
  "handler_scan_steps rt apiKey b res =
     (case destructure_body b of
        Inl e \<Rightarrow> (handler_scan_catch e res, [])
      | Inr (imageBase64, mimeType) \<Rightarrow>
          (case validateImagePayload imageBase64 mimeType of
             Inl e \<Rightarrow> (handler_scan_catch e res, [])
           | Inr validation \<Rightarrow>
               if \<not> valid validation then
                 (status_json 400
                    (Obj [(''error'', Str ''Invalid request''),
                          (''details'', Arr (map Str (errors validation)))]) res, [])
               else
                 (case callGeminiVision (fetch rt) (cleanBase64 validation) mimeType apiKey of
                    Inl e \<Rightarrow>
                      (handler_scan_catch e res,
                       [geminiRequest (cleanBase64 validation) mimeType apiKey])
                  | Inr geminiResponse \<Rightarrow>
                      (status_json 200 (parseGeminiResponse (JSON_parse rt) geminiResponse) res,
                       [geminiRequest (cleanBase64 validation) mimeType apiKey]))))"

definition handler_scan :: "runtime \<Rightarrow> request \<Rightarrow> rate_limit_store \<Rightarrow> outcome" where
  "handler_scan rt req store =
     (let res = setCorsHeaders_scan new_response in
      if req_method req = ''OPTIONS'' then
        \<lparr>response = status_end 200 res, store_after = store, upstream_calls = []\<rparr>
      else if req_method req \<noteq> ''POST'' then
        \<lparr>response = status_json 405 (Obj [(''error'', Str ''Method not allowed'')]) res,
         store_after = store, upstream_calls = []\<rparr>
      else if \<not> isConfigured (GEMINI_API_KEY rt) then
        \<lparr>response = status_json 500
           (Obj [(''error'', Str ''API not configured''),
                 (''message'', Str ''GEMINI_API_KEY environment variable is not set'')]) res,
         store_after = store, upstream_calls = []\<rparr>
      else
        (let apiKey = (case GEMINI_API_KEY rt of None \<Rightarrow> [] | Some k \<Rightarrow> k);
             clientIp = getClientIp req;
             limited = fst (isRateLimited (now_cleanup rt) (now_lookup rt) clientIp store);
             store' = snd (isRateLimited (now_cleanup rt) (now_lookup rt) clientIp store)
         in if limited then
              \<lparr>response = status_json 429
                 (Obj [(''error'', Str ''Rate limit exceeded''),
                       (''message'', Str (''Maximum '' @ string_of_nat RATE_LIMIT_MAX_REQUESTS
                                           @ '' requests per minute allowed''))])
                 (setHeader ''Retry-After'' ''60'' res),
               store_after = store', upstream_calls = []\<rparr>
            else
              \<lparr>response = fst (handler_scan_steps rt apiKey (req_body req) res),
               store_after = store',
               upstream_calls = snd (handler_scan_steps rt apiKey (req_body req) res)\<rparr>))"

section \<open>Sequences of invocations\<close>

text \<open>
  The scan handler serving a sequence of invocations in order, each with its own
  runtime readings, the rate-limit map of one being handed to the next.
\<close>

fun serve :: "rate_limit_store \<Rightarrow> (runtime \<times> request) list \<Rightarrow> outcome list" where
  "serve store [] = []"
| "serve store ((rt, req) # rest) =
     handler_scan rt req store # serve (store_after (handler_scan rt req store)) rest"

text \<open>
  A sequence of calls of the two functions that touch the rate-limit map, started on
  the empty map the module creates.
\<close>

datatype limiter_call = IsRateLimited int int string | CleanupRateLimitStore int

fun run_call :: "limiter_call \<Rightarrow> rate_limit_store \<Rightarrow> rate_limit_store" where
  "run_call (IsRateLimited now_c now ip) store = snd (isRateLimited now_c now ip store)"
| "run_call (CleanupRateLimitStore now) store = cleanupRateLimitStore now store"

definition run_calls :: "limiter_call list \<Rightarrow> rate_limit_store" where
  "run_calls calls = fold run_call calls []"

text \<open>
  An invocation reads the clock inside the window that started at \<open>t0\<close>: both readings
  are less than \<open>RATE_LIMIT_WINDOW\<close> milliseconds after \<open>t0\<close>.
\<close>

definition in_window :: "int \<Rightarrow> runtime \<Rightarrow> bool" where
  "in_window t0 rt \<longleftrightarrow>
     now_cleanup rt - t0 < RATE_LIMIT_WINDOW \<and> now_lookup rt - t0 < RATE_LIMIT_WINDOW"

text \<open>
  An invocation is a \<^verbatim>\<open>POST\<close> of the client \<open>ip\<close> to the scan handler with the
  credential configured.
\<close>

definition scan_post_from :: "string \<Rightarrow> runtime \<times> request \<Rightarrow> bool" where
  "scan_post_from ip c \<longleftrightarrow>
     getClientIp (snd c) = ip \<and> req_method (snd c) = ''POST'' \<and> isConfigured (GEMINI_API_KEY (fst c))"

text \<open>How many of the invocations before the \<open>i\<close>-th come from the client \<open>ip\<close>.\<close>

definition earlier_from :: "string \<Rightarrow> (runtime \<times> request) list \<Rightarrow> nat \<Rightarrow> nat" where
  "earlier_from ip calls i = length (filter (\<lambda>c. getClientIp (snd c) = ip) (take i calls))"

text \<open>
  The messages validation records for a payload whose prefix-stripped text is \<open>clean\<close>,
  in the order of the three checks.
\<close>

definition validation_errors :: "js_value \<Rightarrow> js_value \<Rightarrow> string \<Rightarrow> string list" where
  "validation_errors imageBase64 mimeType clean =
     (if mimeType \<noteq> Str ''image/jpeg'' \<and> mimeType \<noteq> Str ''image/png''
      then [''Invalid mimeType. Allowed: image/jpeg, image/png''] else []) @
     (if \<not> truthy imageBase64 then [''imageBase64 is required''] else []) @
     (if of_nat (length clean) * 3 / 4 > (10 * 1024 * 1024 :: rat)
      then [''Image too large. Max size: 10MB''] else [])"

text \<open>Every stored count is at least 1 and at most the limit.\<close>

definition count_in_bounds :: "rate_limit_store \<Rightarrow> bool" where
  "count_in_bounds store \<longleftrightarrow>
     (\<forall>(ip, data) \<in> set store. 1 \<le> count data \<and> count data \<le> RATE_LIMIT_MAX_REQUESTS)"

section \<open>Example inputs\<close>

definition example_reply :: js_value where
  "example_reply =
     Obj [(''candidates'',
        Arr [Obj [(''content'', Obj [(''parts'', Arr [Obj [(''text'', Str ''```json {} ```'')]])])]])]"

definition example_fetch :: "fetch_request \<Rightarrow> fetch_outcome" where
  "example_fetch r =
     Resolved \<lparr>ok = True, status = 200, text_result = Inr ''{}'', json_result = Inr example_reply\<rparr>"

definition example_JSON_parse :: "string \<Rightarrow> js_error + (string \<times> js_value) list" where
  "example_JSON_parse s =
     (if s = ''{}'' then Inr [] else Inl (SyntaxError ''Unexpected token in JSON''))"

definition example_runtime :: "int \<Rightarrow> runtime" where
  "example_runtime now =
     \<lparr>GEMINI_API_KEY = Some ''secret'', now_cleanup = now, now_lookup = now,
      fetch = example_fetch, JSON_parse = example_JSON_parse\<rparr>"

definition example_request :: "string \<Rightarrow> js_value \<Rightarrow> request" where
  "example_request m b =
     \<lparr>req_method = m, req_headers = [''x-forwarded-for'' \<mapsto> ''203.0.113.7, 10.0.0.1''],
      remoteAddress = None, req_body = b\<rparr>"

definition example_body :: js_value where
  "example_body = Obj [(''imageBase64'', Str ''AAAA''), (''mimeType'', Str ''image/png'')]"

definition example_client :: string where
  "example_client = ''203.0.113.7''"

definition example_call :: "int \<Rightarrow> runtime \<times> request" where
  "example_call now = (example_runtime now, example_request ''POST'' example_body)"

definition example_calls :: "(runtime \<times> request) list" where
  "example_calls = replicate 10 (example_call 2000)"

definition exhausted_store :: rate_limit_store where
  "exhausted_store = [(example_client, \<lparr>windowStart = 0, count = 10\<rparr>)]"

definition two_client_store :: rate_limit_store where
  "two_client_store =
     [(''198.51.100.1'', \<lparr>windowStart = 0, count = 3\<rparr>),
      (''198.51.100.2'', \<lparr>windowStart = 30000, count = 10\<rparr>)]"

definition example_limiter_calls :: "limiter_call list" where
  "example_limiter_calls =
     replicate 12 (IsRateLimited 1000 1000 example_client) @ [CleanupRateLimitStore 2000]"

definition runtime_network_failure :: runtime where
  "runtime_network_failure =
     (example_runtime 1000)\<lparr>fetch := (\<lambda>r. Rejected (TypeError ''fetch failed''))\<rparr>"

definition runtime_upstream_error :: runtime where
  "runtime_upstream_error =
     (example_runtime 1000)\<lparr>fetch := (\<lambda>r. Resolved
        \<lparr>ok = False, status = 503, text_result = Inr ''overloaded'',
         json_result = Inl (SyntaxError ''Unexpected end of JSON input'')\<rparr>)\<rparr>"




definition nonstring_body :: js_value where
  "nonstring_body = Obj [(''imageBase64'', Num 123), (''mimeType'', Str ''image/gif'')]"

definition gif_body :: js_value where
  "gif_body = Obj [(''imageBase64'', Str ''AAAA''), (''mimeType'', Str ''image/gif'')]"

definition prefix_only_body :: js_value where
  "prefix_only_body =
     Obj [(''imageBase64'', Str ''data:image/png;base64,''), (''mimeType'', Str ''image/png'')]"

definition empty_image_body :: js_value where
  "empty_image_body = Obj [(''imageBase64'', Str []), (''mimeType'', Str ''image/png'')]"





definition zero_image_body :: js_value where
  "zero_image_body = Obj [(''imageBase64'', Num 0), (''mimeType'', Str ''image/gif'')]"

definition number_mime_body :: js_value where
  "number_mime_body = Obj [(''imageBase64'', Str ''AAAA''), (''mimeType'', Num 5)]"

section \<open>CORS headers and preflight requests\<close>

lemma headers_setHeader:
  "map_of (res_headers (setHeader name v res)) = (map_of (res_headers res))(name \<mapsto> v)"
  by (simp add: setHeader_def update_conv')

lemma headers_status_json: "res_headers (status_json code v res) = res_headers res"
  by (simp add: status_json_def)

lemma headers_status_end: "res_headers (status_end code res) = res_headers res"
  by (simp add: status_end_def)

lemma headers_catch: "res_headers (handler_scan_catch e res) = res_headers res"
  by (simp add: handler_scan_catch_def headers_status_json)

lemma headers_handler_health:
  "map_of (res_headers (handler_health key req)) =
     [''Access-Control-Allow-Origin'' \<mapsto> ALLOWED_ORIGIN,
      ''Access-Control-Allow-Methods'' \<mapsto> ''GET, OPTIONS'',
      ''Access-Control-Allow-Headers'' \<mapsto> ''Content-Type, Authorization'',
      ''Vary'' \<mapsto> ''Origin'']"
  by (simp add: handler_health_def Let_def headers_status_json headers_status_end
      setCorsHeaders_health_def headers_setHeader new_response_def)

lemma status_catch: "res_status (handler_scan_catch e res) \<in> {500, 502}"
  by (simp add: handler_scan_catch_def status_json_def)

lemma headers_steps: "res_headers (fst (handler_scan_steps rt apiKey b res)) = res_headers res"
  by (simp add: handler_scan_steps_def headers_catch headers_status_json
      split: sum.split prod.split)

lemma status_steps: "res_status (fst (handler_scan_steps rt apiKey b res)) \<in> {200, 400, 500, 502}"
  using status_catch
  by (auto simp add: handler_scan_steps_def status_json_def split: sum.split prod.split)

lemma headers_handler_scan:
  "map_of (res_headers (response (handler_scan rt req store))) =
     (if res_status (response (handler_scan rt req store)) = 429
      then [''Access-Control-Allow-Origin'' \<mapsto> ALLOWED_ORIGIN,
            ''Access-Control-Allow-Methods'' \<mapsto> ''POST, OPTIONS'',
            ''Access-Control-Allow-Headers'' \<mapsto> ''Content-Type, Authorization'',
            ''Vary'' \<mapsto> ''Origin'', ''Retry-After'' \<mapsto> ''60'']
      else [''Access-Control-Allow-Origin'' \<mapsto> ALLOWED_ORIGIN,
            ''Access-Control-Allow-Methods'' \<mapsto> ''POST, OPTIONS'',
            ''Access-Control-Allow-Headers'' \<mapsto> ''Content-Type, Authorization'',
            ''Vary'' \<mapsto> ''Origin''])"
proof -
  have cors: "map_of (res_headers (setCorsHeaders_scan new_response)) =
      [''Access-Control-Allow-Origin'' \<mapsto> ALLOWED_ORIGIN,
       ''Access-Control-Allow-Methods'' \<mapsto> ''POST, OPTIONS'',
       ''Access-Control-Allow-Headers'' \<mapsto> ''Content-Type, Authorization'',
       ''Vary'' \<mapsto> ''Origin'']"
    by (simp add: setCorsHeaders_scan_def headers_setHeader new_response_def)
  have st: "res_status (fst (handler_scan_steps rt apiKey b res)) \<noteq> 429" for apiKey b res
    using status_steps[of rt apiKey b res] by auto
  show ?thesis
    by (simp add: handler_scan_def Let_def headers_status_json headers_status_end headers_steps
        headers_setHeader cors st) (simp add: status_json_def status_end_def)
qed

lemma options_handler_health:
  "req_method req = ''OPTIONS'' \<Longrightarrow>
   res_status (handler_health key req) = 200 \<and> res_body (handler_health key req) = None"
  by (simp add: handler_health_def Let_def status_end_def)

lemma options_handler_scan:
  "req_method req = ''OPTIONS'' \<Longrightarrow>
   res_status (response (handler_scan rt req store)) = 200 \<and>
   res_body (response (handler_scan rt req store)) = None \<and>
   store_after (handler_scan rt req store) = store \<and>
   upstream_calls (handler_scan rt req store) = []"
  by (simp add: handler_scan_def Let_def status_end_def)

text \<open>
  C9.  Every response of the health handler and of the scan handler, whatever the
  request, the configuration, the rate-limit map and the upstream do, carries
  \<^verbatim>\<open>Access-Control-Allow-Origin\<close> with the fixed origin,
  \<^verbatim>\<open>Access-Control-Allow-Headers: Content-Type, Authorization\<close> and
  \<^verbatim>\<open>Vary: Origin\<close>; and an \<^verbatim>\<open>OPTIONS\<close> request to either handler is answered 200
  with an empty body, whether or not the credential is configured.
\<close>

theorem cors_headers_on_every_response:
  "map_of (res_headers (handler_health key req)) ''Access-Control-Allow-Origin''
     = Some ''https://eray464646.github.io'' \<and>
   map_of (res_headers (handler_health key req)) ''Access-Control-Allow-Headers''
     = Some ''Content-Type, Authorization'' \<and>
   map_of (res_headers (handler_health key req)) ''Vary'' = Some ''Origin'' \<and>
   map_of (res_headers (response (handler_scan rt req' store))) ''Access-Control-Allow-Origin''
     = Some ''https://eray464646.github.io'' \<and>
   map_of (res_headers (response (handler_scan rt req' store))) ''Access-Control-Allow-Headers''
     = Some ''Content-Type, Authorization'' \<and>
   map_of (res_headers (response (handler_scan rt req' store))) ''Vary'' = Some ''Origin'' \<and>
   (req_method req = ''OPTIONS'' \<longrightarrow>
      res_status (handler_health key req) = 200 \<and> res_body (handler_health key req) = None) \<and>
   (req_method req' = ''OPTIONS'' \<longrightarrow>
      res_status (response (handler_scan rt req' store)) = 200 \<and>
      res_body (response (handler_scan rt req' store)) = None)"
  using options_handler_health[of req key] options_handler_scan[of req' rt store]
  by (simp add: headers_handler_health headers_handler_scan ALLOWED_ORIGIN_def)

theorem cors_headers_on_every_response_witness:
  "req_method (example_request ''OPTIONS'' Undefined) = ''OPTIONS'' \<and>
   res_status (handler_health None (example_request ''OPTIONS'' Undefined)) = 200 \<and>
   res_body (handler_health None (example_request ''OPTIONS'' Undefined)) = None \<and>
   res_status (response (handler_scan ((example_runtime 0)\<lparr>GEMINI_API_KEY := None\<rparr>)
       (example_request ''OPTIONS'' Undefined) [])) = 200 \<and>
   res_body (response (handler_scan ((example_runtime 0)\<lparr>GEMINI_API_KEY := None\<rparr>)
       (example_request ''OPTIONS'' Undefined) [])) = None \<and>
   map_of (res_headers (response (handler_scan ((example_runtime 0)\<lparr>GEMINI_API_KEY := None\<rparr>)
       (example_request ''OPTIONS'' Undefined) []))) ''Vary'' = Some ''Origin''"
  using cors_headers_on_every_response[of None "example_request ''OPTIONS'' Undefined"
      "(example_runtime 0)\<lparr>GEMINI_API_KEY := None\<rparr>" "example_request ''OPTIONS'' Undefined" "[]"]
  by (simp add: example_request_def)

section \<open>Configuration\<close>

lemma isConfigured_iff: "isConfigured key \<longleftrightarrow> (\<exists>k. key = Some k \<and> k \<noteq> [])"
  by (cases key) (simp_all add: isConfigured_def)

text \<open>
  C7.  A \<^verbatim>\<open>GET\<close> to the health handler is answered 200 with
  \<^verbatim>\<open>{ok: true, provider: "gemini", configured: b}\<close>, where \<open>b\<close> holds exactly when the
  credential is present in the process environment (set, and not the empty string).
  When it is absent, a \<^verbatim>\<open>POST\<close> to the scan handler is answered 500 with the
  configuration-error body before any other work: the rate-limit map is left as it
  was and no upstream request is sent.
\<close>

theorem health_reports_credential_and_scan_fails_closed:
  "(req_method req = ''GET'' \<longrightarrow>
      res_status (handler_health key req) = 200 \<and>
      res_body (handler_health key req) =
        Some (Obj [(''ok'', Bool True), (''provider'', Str ''gemini''),
                   (''configured'', Bool (isConfigured key))])) \<and>
   (isConfigured key \<longleftrightarrow> (\<exists>k. key = Some k \<and> k \<noteq> [])) \<and>
   (req_method req' = ''POST'' \<and> \<not> isConfigured (GEMINI_API_KEY rt) \<longrightarrow>
      res_status (response (handler_scan rt req' store)) = 500 \<and>
      res_body (response (handler_scan rt req' store)) =
        Some (Obj [(''error'', Str ''API not configured''),
                   (''message'', Str ''GEMINI_API_KEY environment variable is not set'')]) \<and>
      store_after (handler_scan rt req' store) = store \<and>
      upstream_calls (handler_scan rt req' store) = [])"
  by (simp add: isConfigured_iff[symmetric] handler_health_def handler_scan_def Let_def
      status_json_def)

theorem health_reports_credential_and_scan_fails_closed_witness:
  "req_method (example_request ''GET'' Undefined) = ''GET'' \<and>
   res_body (handler_health (Some ''secret'') (example_request ''GET'' Undefined)) =
     Some (Obj [(''ok'', Bool True), (''provider'', Str ''gemini''), (''configured'', Bool True)]) \<and>
   res_body (handler_health None (example_request ''GET'' Undefined)) =
     Some (Obj [(''ok'', Bool True), (''provider'', Str ''gemini''), (''configured'', Bool False)]) \<and>
   req_method (example_request ''POST'' example_body) = ''POST'' \<and>
   \<not> isConfigured (GEMINI_API_KEY ((example_runtime 0)\<lparr>GEMINI_API_KEY := None\<rparr>)) \<and>
   res_status (response (handler_scan ((example_runtime 0)\<lparr>GEMINI_API_KEY := None\<rparr>)
       (example_request ''POST'' example_body) [])) = 500 \<and>
   upstream_calls (handler_scan ((example_runtime 0)\<lparr>GEMINI_API_KEY := None\<rparr>)
       (example_request ''POST'' example_body) []) = []"
  using health_reports_credential_and_scan_fails_closed[of "example_request ''GET'' Undefined"
      "Some ''secret''" "example_request ''POST'' example_body"
      "(example_runtime 0)\<lparr>GEMINI_API_KEY := None\<rparr>" "[]"]
    health_reports_credential_and_scan_fails_closed[of "example_request ''GET'' Undefined"
      None "example_request ''POST'' example_body"
      "(example_runtime 0)\<lparr>GEMINI_API_KEY := None\<rparr>" "[]"]
  by (simp add: example_request_def isConfigured_def)

section \<open>The rate-limit map\<close>

lemma fold_delete_filter:
  "fold (\<lambda>(ip, data) s. if P data then AList.delete ip s else s) xs s =
     filter (\<lambda>(k, v). k \<notin> fst ` {(ip, data) \<in> set xs. P data}) s"
proof (induction xs arbitrary: s)
  case Nil
  then show ?case by simp
next
  case (Cons x xs)
  obtain ip data where x: "x = (ip, data)" by (cases x)
  show ?case
  proof (cases "P data")
    case True
    have "fold (\<lambda>(ip, data) s. if P data then AList.delete ip s else s) (x # xs) s =
        filter (\<lambda>(k, v). k \<notin> fst ` {(ip, data) \<in> set xs. P data}) (AList.delete ip s)"
      using True x Cons.IH by simp
    also have "\<dots> = filter (\<lambda>(k, v). k \<notin> insert ip (fst ` {(ip, data) \<in> set xs. P data})) s"
      by (auto simp: AList.delete_eq intro!: filter_cong)
    also have "insert ip (fst ` {(ip, data) \<in> set xs. P data}) =
        fst ` {(ip, data) \<in> set (x # xs). P data}"
      using True x by force
    finally show ?thesis .
  next
    case False
    have "{(ip, data) \<in> set (x # xs). P data} = {(ip, data) \<in> set xs. P data}"
      using False x by auto
    then show ?thesis using False x Cons.IH by simp
  qed
qed

lemma cleanup_filter:
  assumes "distinct (map fst store)"
  shows "cleanupRateLimitStore now store =
     filter (\<lambda>(ip, data). \<not> now - windowStart data > RATE_LIMIT_WINDOW) store"
proof -
  have "cleanupRateLimitStore now store =
      filter (\<lambda>(k, v). k \<notin> fst ` {(ip, data) \<in> set store. now - windowStart data > RATE_LIMIT_WINDOW}) store"
    unfolding cleanupRateLimitStore_def by (rule fold_delete_filter)
  also have "\<dots> = filter (\<lambda>(ip, data). \<not> now - windowStart data > RATE_LIMIT_WINDOW) store"
  proof (rule filter_cong[OF refl])
    fix x assume x: "x \<in> set store"
    obtain k v where kv: "x = (k, v)" by (cases x)
    have "k \<in> fst ` {(ip, data) \<in> set store. now - windowStart data > RATE_LIMIT_WINDOW}
        \<longleftrightarrow> now - windowStart v > RATE_LIMIT_WINDOW"
    proof
      assume "k \<in> fst ` {(ip, data) \<in> set store. now - windowStart data > RATE_LIMIT_WINDOW}"
      then obtain v' where "(k, v') \<in> set store" "now - windowStart v' > RATE_LIMIT_WINDOW"
        by auto
      moreover have "v' = v"
        using assms x kv \<open>(k, v') \<in> set store\<close> by (meson eq_key_imp_eq_value)
      ultimately show "now - windowStart v > RATE_LIMIT_WINDOW" by simp
    next
      assume "now - windowStart v > RATE_LIMIT_WINDOW"
      then show "k \<in> fst ` {(ip, data) \<in> set store. now - windowStart data > RATE_LIMIT_WINDOW}"
        using x kv by force
    qed
    then show "(case x of (k, v) \<Rightarrow> k \<notin> fst ` {(ip, data) \<in> set store. now - windowStart data > RATE_LIMIT_WINDOW})
        = (case x of (ip, data) \<Rightarrow> \<not> now - windowStart data > RATE_LIMIT_WINDOW)"
      using kv by simp
  qed
  finally show ?thesis .
qed

lemma set_cleanup_subset: "set (cleanupRateLimitStore now store) \<subseteq> set store"
  unfolding cleanupRateLimitStore_def by (simp add: fold_delete_filter)

lemma distinct_cleanup:
  "distinct (map fst store) \<Longrightarrow> distinct (map fst (cleanupRateLimitStore now store))"
  by (simp add: cleanup_filter distinct_map_filter)

lemma map_of_cleanup:
  assumes "distinct (map fst store)"
  shows "map_of (cleanupRateLimitStore now store) k =
     (case map_of store k of
        None \<Rightarrow> None
      | Some d \<Rightarrow> if now - windowStart d > RATE_LIMIT_WINDOW then None else Some d)"
proof -
  have "map_of (filter (\<lambda>(ip, data). \<not> now - windowStart data > RATE_LIMIT_WINDOW) store) k =
     (case map_of store k of
        None \<Rightarrow> None
      | Some d \<Rightarrow> if now - windowStart d > RATE_LIMIT_WINDOW then None else Some d)"
    using assms
  proof (induction store)
    case Nil
    then show ?case by simp
  next
    case (Cons x xs)
    obtain a b where x: "x = (a, b)" by (cases x)
    from Cons.prems x have notin: "a \<notin> fst ` set xs" and dist: "distinct (map fst xs)" by auto
    show ?case
    proof (cases "k = a")
      case True
      then have "map_of xs k = None" using notin by (simp add: map_of_eq_None_iff)
      then have "map_of (filter (\<lambda>(ip, data). \<not> now - windowStart data > RATE_LIMIT_WINDOW) xs) k = None"
        using Cons.IH[OF dist] by simp
      then show ?thesis using True x by simp
    next
      case False
      then show ?thesis using x Cons.IH[OF dist] by simp
    qed
  qed
  then show ?thesis using assms by (simp add: cleanup_filter)
qed

lemma distinct_isRateLimited:
  "distinct (map fst store) \<Longrightarrow>
   distinct (map fst (snd (isRateLimited now_c now ip store)))"
  by (simp add: isRateLimited_def Let_def distinct_cleanup distinct_update split: option.split)

lemma map_of_isRateLimited_other:
  "k \<noteq> ip \<Longrightarrow>
   map_of (snd (isRateLimited now_c now ip store)) k = map_of (cleanupRateLimitStore now_c store) k"
  by (simp add: isRateLimited_def Let_def update_conv' split: option.split)

lemma set_update_cases:
  "x \<in> set (AList.update k v al) \<Longrightarrow> x = (k, v) \<or> x \<in> set al"
  by (induction al) (auto split: if_splits)

lemma store_after_handler_scan:
  "store_after (handler_scan rt req store) =
     (if req_method req = ''POST'' \<and> isConfigured (GEMINI_API_KEY rt)
      then snd (isRateLimited (now_cleanup rt) (now_lookup rt) (getClientIp req) store)
      else store)"
  by (simp add: handler_scan_def Let_def)

lemma status_429_handler_scan:
  assumes "req_method req = ''POST''" and "isConfigured (GEMINI_API_KEY rt)"
  shows "res_status (response (handler_scan rt req store)) = 429 \<longleftrightarrow>
     fst (isRateLimited (now_cleanup rt) (now_lookup rt) (getClientIp req) store)"
proof -
  have st: "res_status (fst (handler_scan_steps rt apiKey b res)) \<noteq> 429" for apiKey b res
    using status_steps[of rt apiKey b res] by auto
  show ?thesis using assms by (simp add: handler_scan_def Let_def st status_json_def)
qed

lemma distinct_store_after:
  "distinct (map fst store) \<Longrightarrow> distinct (map fst (store_after (handler_scan rt req store)))"
  by (simp add: store_after_handler_scan distinct_isRateLimited)

lemma isRateLimited_fresh:
  assumes "distinct (map fst store)"
    and "case map_of store ip of None \<Rightarrow> True | Some d \<Rightarrow> now - windowStart d \<ge> RATE_LIMIT_WINDOW"
  shows "\<not> fst (isRateLimited now_c now ip store) \<and>
     map_of (snd (isRateLimited now_c now ip store)) ip = Some \<lparr>windowStart = now, count = 1\<rparr>"
  using assms(2)
  by (auto simp add: isRateLimited_def Let_def map_of_cleanup[OF assms(1)] update_conv'
      split: option.splits if_splits)

lemma isRateLimited_in_window:
  assumes "distinct (map fst store)"
    and "map_of store ip = Some d"
    and "now_c - windowStart d \<le> RATE_LIMIT_WINDOW"
    and "now - windowStart d < RATE_LIMIT_WINDOW"
  shows "fst (isRateLimited now_c now ip store) = (count d \<ge> RATE_LIMIT_MAX_REQUESTS) \<and>
     map_of (snd (isRateLimited now_c now ip store)) ip =
       Some (if count d \<ge> RATE_LIMIT_MAX_REQUESTS then d else d\<lparr>count := count d + 1\<rparr>)"
  using assms(2-4)
  by (auto simp add: isRateLimited_def Let_def map_of_cleanup[OF assms(1)] update_conv')

lemma isRateLimited_other_client:
  assumes "distinct (map fst store)"
    and "map_of store ip = Some d"
    and "now_c - windowStart d \<le> RATE_LIMIT_WINDOW"
    and "ip' \<noteq> ip"
  shows "map_of (snd (isRateLimited now_c now ip' store)) ip = Some d"
  using assms(2-4)
  by (simp add: map_of_isRateLimited_other map_of_cleanup[OF assms(1)])

lemma handler_scan_in_window:
  assumes dist: "distinct (map fst store)"
    and entry: "map_of store ip = Some \<lparr>windowStart = t0, count = n\<rparr>"
    and win: "in_window t0 rt"
    and post: "getClientIp req = ip" "req_method req = ''POST''" "isConfigured (GEMINI_API_KEY rt)"
  shows "(res_status (response (handler_scan rt req store)) = 429 \<longleftrightarrow> 10 \<le> n) \<and>
     map_of (store_after (handler_scan rt req store)) ip =
       Some \<lparr>windowStart = t0, count = (if 10 \<le> n then n else n + 1)\<rparr>"
proof -
  have a: "now_cleanup rt - windowStart \<lparr>windowStart = t0, count = n\<rparr> \<le> RATE_LIMIT_WINDOW"
    and b: "now_lookup rt - windowStart \<lparr>windowStart = t0, count = n\<rparr> < RATE_LIMIT_WINDOW"
    using win by (simp_all add: in_window_def)
  show ?thesis
    using isRateLimited_in_window[OF dist entry a b] post
    by (simp add: status_429_handler_scan store_after_handler_scan RATE_LIMIT_MAX_REQUESTS_def)
qed

lemma handler_scan_other_client:
  assumes dist: "distinct (map fst store)"
    and entry: "map_of store ip = Some \<lparr>windowStart = t0, count = n\<rparr>"
    and win: "in_window t0 rt"
    and other: "getClientIp req \<noteq> ip"
  shows "map_of (store_after (handler_scan rt req store)) ip = Some \<lparr>windowStart = t0, count = n\<rparr>"
proof -
  have a: "now_cleanup rt - windowStart \<lparr>windowStart = t0, count = n\<rparr> \<le> RATE_LIMIT_WINDOW"
    using win by (simp add: in_window_def)
  show ?thesis
    using isRateLimited_other_client[OF dist entry a other] entry
    by (simp add: store_after_handler_scan)
qed

lemma serve_in_window:
  assumes "distinct (map fst store)"
    and "map_of store ip = Some \<lparr>windowStart = t0, count = n\<rparr>"
    and "n \<le> 10"
    and "\<forall>c \<in> set calls. in_window t0 (fst c) \<and> (getClientIp (snd c) = ip \<longrightarrow> scan_post_from ip c)"
    and "i < length calls"
    and "getClientIp (snd (calls ! i)) = ip"
  shows "(res_status (response (serve store calls ! i)) = 429 \<longleftrightarrow> 10 \<le> n + earlier_from ip calls i) \<and>
     map_of (store_after (serve store calls ! i)) ip =
       Some \<lparr>windowStart = t0, count = min 10 (n + earlier_from ip calls i + 1)\<rparr>"
  using assms
proof (induction calls arbitrary: store n i)
  case Nil
  then show ?case by simp
next
  case (Cons c rest)
  obtain rt req where c: "c = (rt, req)" by (cases c)
  have win: "in_window t0 rt" using Cons.prems(4) c by simp
  show ?case
  proof (cases i)
    case 0
    then have ip: "getClientIp req = ip" using Cons.prems(6) c by simp
    then have "scan_post_from ip (rt, req)" using Cons.prems(4) c by simp
    then have post: "req_method req = ''POST''" "isConfigured (GEMINI_API_KEY rt)"
      by (simp_all add: scan_post_from_def)
    show ?thesis
      using handler_scan_in_window[OF Cons.prems(1) Cons.prems(2) win ip post] 0 c Cons.prems(3)
      by (auto simp add: earlier_from_def)
  next
    case (Suc j)
    let ?store1 = "store_after (handler_scan rt req store)"
    let ?n1 = "if getClientIp req = ip then min 10 (n + 1) else n"
    have dist1: "distinct (map fst ?store1)"
      using Cons.prems(1) by (rule distinct_store_after)
    have entry1: "map_of ?store1 ip = Some \<lparr>windowStart = t0, count = ?n1\<rparr>"
    proof (cases "getClientIp req = ip")
      case True
      then have "scan_post_from ip (rt, req)" using Cons.prems(4) c by simp
      then have post: "req_method req = ''POST''" "isConfigured (GEMINI_API_KEY rt)"
        by (simp_all add: scan_post_from_def)
      show ?thesis
        using handler_scan_in_window[OF Cons.prems(1) Cons.prems(2) win True post] True Cons.prems(3)
        by (auto simp add: min_def)
    next
      case False
      then show ?thesis
        using handler_scan_other_client[OF Cons.prems(1) Cons.prems(2) win False] by simp
    qed
    have n1: "?n1 \<le> 10" using Cons.prems(3) by simp
    have rest: "\<forall>c \<in> set rest. in_window t0 (fst c) \<and> (getClientIp (snd c) = ip \<longrightarrow> scan_post_from ip c)"
      using Cons.prems(4) by simp
    have j: "j < length rest" using Cons.prems(5) Suc by simp
    have ipj: "getClientIp (snd (rest ! j)) = ip" using Cons.prems(6) Suc by simp
    have e: "earlier_from ip (c # rest) i = (if getClientIp req = ip then 1 else 0) + earlier_from ip rest j"
      using Suc c by (simp add: earlier_from_def)
    have s: "serve store (c # rest) ! i = serve ?store1 rest ! j"
      using Suc c by simp
    show ?thesis
      using Cons.IH[OF dist1 entry1 n1 rest j ipj] Cons.prems(3)
      unfolding e s by (auto simp add: min_def)
  qed
qed

lemma getClientIp_example [simp]: "getClientIp (example_request m b) = example_client"
  by (simp add: getClientIp_def example_request_def example_client_def trim_def is_space_def)

lemma scan_post_from_example: "scan_post_from example_client (example_call now)"
proof -
  have "req_method (example_request ''POST'' example_body) = ''POST''"
    by (simp add: example_request_def)
  then show ?thesis
    by (simp add: scan_post_from_def example_call_def example_runtime_def isConfigured_def)
qed

subsection \<open>The invariant of the stored counts\<close>

lemma count_in_bounds_cleanup:
  "count_in_bounds store \<Longrightarrow> count_in_bounds (cleanupRateLimitStore now store)"
  using set_cleanup_subset[of now store] by (auto simp add: count_in_bounds_def)

lemma count_in_bounds_update:
  "count_in_bounds store \<Longrightarrow> 1 \<le> count d \<Longrightarrow> count d \<le> RATE_LIMIT_MAX_REQUESTS \<Longrightarrow>
   count_in_bounds (AList.update ip d store)"
  by (auto simp add: count_in_bounds_def dest: set_update_cases)

lemma count_in_bounds_isRateLimited:
  assumes "count_in_bounds store"
  shows "count_in_bounds (snd (isRateLimited now_c now ip store))"
proof -
  let ?s = "cleanupRateLimitStore now_c store"
  have s: "count_in_bounds ?s" using assms by (rule count_in_bounds_cleanup)
  show ?thesis
  proof (cases "map_of ?s ip")
    case None
    then show ?thesis
      using s by (simp add: isRateLimited_def Let_def count_in_bounds_update
          RATE_LIMIT_MAX_REQUESTS_def)
  next
    case (Some d)
    then have "(ip, d) \<in> set ?s" by (rule map_of_SomeD)
    then have d: "1 \<le> count d" "count d \<le> RATE_LIMIT_MAX_REQUESTS"
      using s by (auto simp add: count_in_bounds_def)
    show ?thesis
      using Some s d
      by (auto simp add: isRateLimited_def Let_def RATE_LIMIT_MAX_REQUESTS_def
          intro!: count_in_bounds_update)
  qed
qed

lemma count_in_bounds_run_call:
  "count_in_bounds store \<Longrightarrow> count_in_bounds (run_call c store)"
  by (cases c) (simp_all add: count_in_bounds_isRateLimited count_in_bounds_cleanup)

lemma count_in_bounds_fold:
  "count_in_bounds store \<Longrightarrow> count_in_bounds (fold run_call calls store)"
  by (induction calls arbitrary: store) (simp_all add: count_in_bounds_run_call)

text \<open>
  C10.  After any sequence of calls of \<^verbatim>\<open>isRateLimited\<close> and \<^verbatim>\<open>cleanupRateLimitStore\<close>,
  started on the empty map, every entry of the rate-limit map has a count of at least
  1 and at most \<open>RATE_LIMIT_MAX_REQUESTS\<close> = 10.
\<close>

theorem stored_count_between_one_and_limit:
  "\<forall>(ip, data) \<in> set (run_calls calls). 1 \<le> count data \<and> count data \<le> RATE_LIMIT_MAX_REQUESTS"
proof -
  have "count_in_bounds []" by (simp add: count_in_bounds_def)
  then have "count_in_bounds (run_calls calls)"
    unfolding run_calls_def by (rule count_in_bounds_fold)
  then show ?thesis by (simp add: count_in_bounds_def)
qed

theorem stored_count_between_one_and_limit_witness:
  "(example_client, \<lparr>windowStart = 1000, count = 10\<rparr>) \<in> set (run_calls example_limiter_calls) \<and>
   1 \<le> count \<lparr>windowStart = 1000, count = 10\<rparr> \<and>
   count \<lparr>windowStart = 1000, count = 10\<rparr> \<le> RATE_LIMIT_MAX_REQUESTS"
proof -
  have "run_calls example_limiter_calls = [(example_client, \<lparr>windowStart = 1000, count = 10\<rparr>)]"
    by code_simp
  then have m: "(example_client, \<lparr>windowStart = 1000, count = 10\<rparr>) \<in> set (run_calls example_limiter_calls)"
    by simp
  with stored_count_between_one_and_limit[of example_limiter_calls] show ?thesis by blast
qed

subsection \<open>The purge before the lookup\<close>

lemma isRateLimited_store_shape:
  assumes "distinct (map fst store)"
  shows "\<exists>e. snd (isRateLimited now_c now ip store) =
     AList.update ip e (filter (\<lambda>(k, data). now_c - windowStart data \<le> RATE_LIMIT_WINDOW) store)"
proof -
  have f: "cleanupRateLimitStore now_c store =
      filter (\<lambda>(k, data). now_c - windowStart data \<le> RATE_LIMIT_WINDOW) store"
    using cleanup_filter[OF assms, of now_c] by (simp add: not_less)
  show ?thesis
  proof (cases "fst (isRateLimited now_c now ip store)")
    case True
    then obtain d where d: "map_of (cleanupRateLimitStore now_c store) ip = Some d"
      and s: "snd (isRateLimited now_c now ip store) = cleanupRateLimitStore now_c store"
      by (auto simp add: isRateLimited_def Let_def split: option.splits if_splits)
    have "AList.update ip d (cleanupRateLimitStore now_c store) = cleanupRateLimitStore now_c store"
      using d by (rule update_triv)
    then show ?thesis using s f by metis
  next
    case False
    then show ?thesis
      unfolding f[symmetric]
      by (auto simp add: isRateLimited_def Let_def split: option.splits if_splits)
  qed
qed

text \<open>
  C3, as the code has it.  \<^verbatim>\<open>cleanupRateLimitStore\<close> removes exactly the entries whose
  window started more than one window length before the clock reading
  (\<open>now - windowStart > RATE_LIMIT_WINDOW\<close>), that is, every entry whose window ended
  before the clock reading, however recently; it keeps the others, in their order.  A \<^verbatim>\<open>POST\<close> to the
  scan handler with the credential configured leaves the map so purged, with the
  entry of the requesting client created or updated.
\<close>

theorem cleanup_purges_entries_older_than_window:
  assumes "distinct (map fst store)"
  shows "cleanupRateLimitStore now store =
       filter (\<lambda>(ip, data). now - windowStart data \<le> RATE_LIMIT_WINDOW) store \<and>
     (req_method req = ''POST'' \<and> isConfigured (GEMINI_API_KEY rt) \<longrightarrow>
        (\<exists>e. store_after (handler_scan rt req store) =
           AList.update (getClientIp req) e
             (filter (\<lambda>(ip, data). now_cleanup rt - windowStart data \<le> RATE_LIMIT_WINDOW) store)))"
  using cleanup_filter[OF assms, of now] isRateLimited_store_shape[OF assms]
  by (simp add: not_less store_after_handler_scan)

theorem cleanup_purges_entries_older_than_window_witness:
  "distinct (map fst two_client_store) \<and>
   cleanupRateLimitStore 90000 two_client_store
     = [(''198.51.100.2'', \<lparr>windowStart = 30000, count = 10\<rparr>)] \<and>
   req_method (example_request ''POST'' example_body) = ''POST'' \<and>
   isConfigured (GEMINI_API_KEY (example_runtime 90000)) \<and>
   map fst (store_after (handler_scan (example_runtime 90000)
       (example_request ''POST'' example_body) two_client_store))
     = [''198.51.100.2'', example_client]"
proof -
  let ?rt = "example_runtime 90000"
  let ?req = "example_request ''POST'' example_body"
  have h: "distinct (map fst two_client_store)" by (simp add: two_client_store_def)
  have m: "req_method ?req = ''POST''" by (simp add: example_request_def)
  have k: "isConfigured (GEMINI_API_KEY ?rt)"
    by (simp add: example_runtime_def isConfigured_def)
  have n: "now_cleanup ?rt = 90000" by (simp add: example_runtime_def)
  have f: "filter (\<lambda>(ip, data). 90000 - windowStart data \<le> RATE_LIMIT_WINDOW) two_client_store
      = [(''198.51.100.2'', \<lparr>windowStart = 30000, count = 10\<rparr>)]"
    by (simp add: two_client_store_def RATE_LIMIT_WINDOW_def)
  note t = cleanup_purges_entries_older_than_window[OF h, of 90000 ?req ?rt]
  have c: "cleanupRateLimitStore 90000 two_client_store
      = [(''198.51.100.2'', \<lparr>windowStart = 30000, count = 10\<rparr>)]"
    using t f by simp
  from t m k obtain e where "store_after (handler_scan ?rt ?req two_client_store) =
      AList.update (getClientIp ?req) e
        (filter (\<lambda>(ip, data). now_cleanup ?rt - windowStart data \<le> RATE_LIMIT_WINDOW)
           two_client_store)"
    by blast
  then have "store_after (handler_scan ?rt ?req two_client_store) =
      AList.update example_client e [(''198.51.100.2'', \<lparr>windowStart = 30000, count = 10\<rparr>)]"
    unfolding n f by simp
  then have "map fst (store_after (handler_scan ?rt ?req two_client_store))
      = [''198.51.100.2'', example_client]"
    by (simp add: example_client_def)
  with h c m k show ?thesis by simp
qed

text \<open>
  The claim C3 as the specification states it, that an entry whose window expired less
  than one further window length ago is retained, fails: at clock reading 90000 the
  entry with \<open>windowStart = 0\<close> expired 30000 milliseconds ago, and is purged, by
  \<^verbatim>\<open>cleanupRateLimitStore\<close> and by a request of another client to the scan handler.
\<close>

theorem cleanup_purges_entry_expired_less_than_a_window_ago:
  "0 + RATE_LIMIT_WINDOW < 90000 \<and>
   90000 - (0 + RATE_LIMIT_WINDOW) < RATE_LIMIT_WINDOW \<and>
   map_of two_client_store ''198.51.100.1'' = Some \<lparr>windowStart = 0, count = 3\<rparr> \<and>
   map_of (cleanupRateLimitStore 90000 two_client_store) ''198.51.100.1'' = None \<and>
   map_of (store_after (handler_scan (example_runtime 90000)
       (example_request ''POST'' example_body) two_client_store)) ''198.51.100.1'' = None"
proof -
  have c: "cleanupRateLimitStore 90000 two_client_store
      = [(''198.51.100.2'', \<lparr>windowStart = 30000, count = 10\<rparr>)]"
    by (simp add: cleanupRateLimitStore_def two_client_store_def RATE_LIMIT_WINDOW_def
        AList.delete_eq)
  have "map_of (snd (isRateLimited 90000 90000 example_client two_client_store)) ''198.51.100.1''
      = map_of (cleanupRateLimitStore 90000 two_client_store) ''198.51.100.1''"
    by (rule map_of_isRateLimited_other) (simp add: example_client_def)
  moreover have "store_after (handler_scan (example_runtime 90000)
       (example_request ''POST'' example_body) two_client_store)
     = snd (isRateLimited 90000 90000 example_client two_client_store)"
    by (simp add: store_after_handler_scan)
       (simp add: example_runtime_def example_request_def isConfigured_def)
  ultimately show ?thesis
    unfolding c by (simp add: two_client_store_def RATE_LIMIT_WINDOW_def)
qed

subsection \<open>Requests after and within a window\<close>

text \<open>
  C2.  When the requesting client has no entry, or an entry whose window has elapsed
  (\<open>now - windowStart \<ge> RATE_LIMIT_WINDOW\<close>), whatever its count, a \<^verbatim>\<open>POST\<close> to the scan
  handler with the credential configured is not rate limited: it is not answered 429,
  its response is that of the steps after the rate limiter, and the client's entry
  becomes \<open>count = 1\<close>, \<open>windowStart = now\<close>.
\<close>

theorem request_after_elapsed_window_proceeds:
  assumes "distinct (map fst store)"
    and "req_method req = ''POST''"
    and "GEMINI_API_KEY rt = Some apiKey" and "apiKey \<noteq> []"
    and "case map_of store (getClientIp req) of
           None \<Rightarrow> True
         | Some d \<Rightarrow> now_lookup rt - windowStart d \<ge> RATE_LIMIT_WINDOW"
  shows "\<not> fst (isRateLimited (now_cleanup rt) (now_lookup rt) (getClientIp req) store) \<and>
     res_status (response (handler_scan rt req store)) \<noteq> 429 \<and>
     response (handler_scan rt req store) =
       fst (handler_scan_steps rt apiKey (req_body req) (setCorsHeaders_scan new_response)) \<and>
     map_of (store_after (handler_scan rt req store)) (getClientIp req) =
       Some \<lparr>windowStart = now_lookup rt, count = 1\<rparr>"
proof -
  have conf: "isConfigured (GEMINI_API_KEY rt)"
    using assms(3,4) by (simp add: isConfigured_def)
  have fresh: "\<not> fst (isRateLimited (now_cleanup rt) (now_lookup rt) (getClientIp req) store) \<and>
      map_of (snd (isRateLimited (now_cleanup rt) (now_lookup rt) (getClientIp req) store))
        (getClientIp req) = Some \<lparr>windowStart = now_lookup rt, count = 1\<rparr>"
    using assms(1) assms(5) by (rule isRateLimited_fresh)
  have "response (handler_scan rt req store) =
       fst (handler_scan_steps rt apiKey (req_body req) (setCorsHeaders_scan new_response))"
    using fresh assms(2,3) conf by (simp add: handler_scan_def Let_def)
  then show ?thesis
    using fresh assms(2) conf
    by (simp add: status_429_handler_scan[symmetric] store_after_handler_scan)
qed

theorem request_after_elapsed_window_proceeds_witness:
  "distinct (map fst exhausted_store) \<and>
   map_of exhausted_store (getClientIp (example_request ''POST'' example_body))
     = Some \<lparr>windowStart = 0, count = 10\<rparr> \<and>
   now_lookup (example_runtime 60000) - windowStart \<lparr>windowStart = 0, count = 10\<rparr>
     \<ge> RATE_LIMIT_WINDOW \<and>
   res_status (response (handler_scan (example_runtime 60000)
       (example_request ''POST'' example_body) exhausted_store)) \<noteq> 429 \<and>
   map_of (store_after (handler_scan (example_runtime 60000)
       (example_request ''POST'' example_body) exhausted_store))
     (getClientIp (example_request ''POST'' example_body))
     = Some \<lparr>windowStart = 60000, count = 1\<rparr>"
proof -
  have h1: "distinct (map fst exhausted_store)" by (simp add: exhausted_store_def)
  have h2: "req_method (example_request ''POST'' example_body) = ''POST''"
    by (simp add: example_request_def)
  have h3: "GEMINI_API_KEY (example_runtime 60000) = Some ''secret''"
    by (simp add: example_runtime_def)
  have h4: "''secret'' \<noteq> []" by simp
  have m: "map_of exhausted_store (getClientIp (example_request ''POST'' example_body))
     = Some \<lparr>windowStart = 0, count = 10\<rparr>"
    by (simp add: exhausted_store_def)
  have n: "now_lookup (example_runtime 60000) = 60000" by (simp add: example_runtime_def)
  have h5: "case map_of exhausted_store (getClientIp (example_request ''POST'' example_body)) of
           None \<Rightarrow> True
         | Some d \<Rightarrow> now_lookup (example_runtime 60000) - windowStart d \<ge> RATE_LIMIT_WINDOW"
    unfolding m n by (simp add: RATE_LIMIT_WINDOW_def)
  have g: "now_lookup (example_runtime 60000) - windowStart \<lparr>windowStart = 0, count = 10\<rparr>
     \<ge> RATE_LIMIT_WINDOW"
    unfolding n by (simp add: RATE_LIMIT_WINDOW_def)
  from request_after_elapsed_window_proceeds[OF h1 h2 h3 h4 h5] h1 m g
  show ?thesis unfolding n by blast
qed

text \<open>
  C1.  Let a client with no entry, or an elapsed one, send a \<^verbatim>\<open>POST\<close> to the scan
  handler (credential configured), and let any invocations follow, of this client and
  of others, all reading the clock inside the window this first request opens.  Then a
  request of the client is answered 429 exactly when at least 10 requests of the
  client came before it: the first 10 proceed and the 11th and later ones receive 429.
  A 429 response carries \<^verbatim>\<open>Retry-After: 60\<close>, and the stored count is the number of the
  client's requests so far, capped at 10: it is not incremented once the limit is
  reached.
\<close>

theorem first_ten_requests_in_window_proceed:
  assumes "distinct (map fst store)"
    and "scan_post_from ip (rt0, req0)"
    and "case map_of store ip of
           None \<Rightarrow> True
         | Some d \<Rightarrow> now_lookup rt0 - windowStart d \<ge> RATE_LIMIT_WINDOW"
    and "\<forall>c \<in> set rest.
           in_window (now_lookup rt0) (fst c) \<and> (getClientIp (snd c) = ip \<longrightarrow> scan_post_from ip c)"
    and "i < length ((rt0, req0) # rest)"
    and "getClientIp (snd (((rt0, req0) # rest) ! i)) = ip"
  shows "(res_status (response (serve store ((rt0, req0) # rest) ! i)) = 429
            \<longleftrightarrow> 10 \<le> earlier_from ip ((rt0, req0) # rest) i) \<and>
         (res_status (response (serve store ((rt0, req0) # rest) ! i)) = 429 \<longrightarrow>
            map_of (res_headers (response (serve store ((rt0, req0) # rest) ! i))) ''Retry-After''
              = Some ''60'') \<and>
         map_of (store_after (serve store ((rt0, req0) # rest) ! i)) ip =
           Some \<lparr>windowStart = now_lookup rt0,
                 count = min 10 (earlier_from ip ((rt0, req0) # rest) i + 1)\<rparr>"
proof -
  let ?calls = "(rt0, req0) # rest"
  let ?store1 = "store_after (handler_scan rt0 req0 store)"
  have post: "getClientIp req0 = ip" "req_method req0 = ''POST''" "isConfigured (GEMINI_API_KEY rt0)"
    using assms(2) by (simp_all add: scan_post_from_def)
  have first: "\<not> fst (isRateLimited (now_cleanup rt0) (now_lookup rt0) ip store) \<and>
      map_of (snd (isRateLimited (now_cleanup rt0) (now_lookup rt0) ip store)) ip
        = Some \<lparr>windowStart = now_lookup rt0, count = 1\<rparr>"
    using assms(1) assms(3) by (rule isRateLimited_fresh)
  have status0: "res_status (response (handler_scan rt0 req0 store)) \<noteq> 429"
    using first post by (simp add: status_429_handler_scan)
  have entry1: "map_of ?store1 ip = Some \<lparr>windowStart = now_lookup rt0, count = 1\<rparr>"
    using first post by (simp add: store_after_handler_scan)
  have dist1: "distinct (map fst ?store1)"
    using assms(1) by (rule distinct_store_after)
  have main: "(res_status (response (serve store ?calls ! i)) = 429
            \<longleftrightarrow> 10 \<le> earlier_from ip ?calls i) \<and>
         map_of (store_after (serve store ?calls ! i)) ip =
           Some \<lparr>windowStart = now_lookup rt0, count = min 10 (earlier_from ip ?calls i + 1)\<rparr>"
  proof (cases i)
    case 0
    then show ?thesis using status0 entry1 by (simp add: earlier_from_def)
  next
    case (Suc j)
    have j: "j < length rest" using assms(5) Suc by simp
    have ipj: "getClientIp (snd (rest ! j)) = ip" using assms(6) Suc by simp
    have e: "earlier_from ip ?calls i = 1 + earlier_from ip rest j"
      using Suc post by (simp add: earlier_from_def)
    have s: "serve store ?calls ! i = serve ?store1 rest ! j"
      using Suc by simp
    have "(1::nat) \<le> 10" by simp
    from serve_in_window[OF dist1 entry1 this assms(4) j ipj]
    show ?thesis unfolding e s by simp
  qed
  moreover have "res_status (response (serve store ?calls ! i)) = 429 \<longrightarrow>
      map_of (res_headers (response (serve store ?calls ! i))) ''Retry-After'' = Some ''60''"
  proof -
    have "\<forall>out \<in> set (serve st cs). res_status (response out) = 429 \<longrightarrow>
        map_of (res_headers (response out)) ''Retry-After'' = Some ''60''" for st cs
      by (induction st cs rule: serve.induct) (simp_all add: headers_handler_scan)
    moreover have "length (serve st cs) = length cs" for st cs
      by (induction st cs rule: serve.induct) simp_all
    ultimately show ?thesis using assms(5) by (metis nth_mem)
  qed
  ultimately show ?thesis by blast
qed

theorem first_ten_requests_in_window_proceed_witness:
  "distinct (map fst ([] :: rate_limit_store)) \<and>
   scan_post_from example_client (example_runtime 1000, example_request ''POST'' example_body) \<and>
   in_window (now_lookup (example_runtime 1000)) (fst (example_call 2000)) \<and>
   res_status (response (serve []
      ((example_runtime 1000, example_request ''POST'' example_body) # example_calls) ! 9)) \<noteq> 429 \<and>
   res_status (response (serve []
      ((example_runtime 1000, example_request ''POST'' example_body) # example_calls) ! 10)) = 429 \<and>
   map_of (res_headers (response (serve []
      ((example_runtime 1000, example_request ''POST'' example_body) # example_calls) ! 10)))
      ''Retry-After'' = Some ''60'' \<and>
   map_of (store_after (serve []
      ((example_runtime 1000, example_request ''POST'' example_body) # example_calls) ! 10))
      example_client = Some \<lparr>windowStart = 1000, count = 10\<rparr>"
proof -
  let ?first = "(example_runtime 1000, example_request ''POST'' example_body)"
  let ?calls = "?first # example_calls"
  have h1: "distinct (map fst ([] :: rate_limit_store))" by simp
  have h2: "scan_post_from example_client ?first"
    using scan_post_from_example[of 1000] by (simp add: example_call_def)
  have h3: "case map_of ([] :: rate_limit_store) example_client of
              None \<Rightarrow> True
            | Some d \<Rightarrow> now_lookup (example_runtime 1000) - windowStart d \<ge> RATE_LIMIT_WINDOW"
    by simp
  have w: "in_window (now_lookup (example_runtime 1000)) (fst (example_call 2000))"
    by (simp add: in_window_def example_call_def example_runtime_def RATE_LIMIT_WINDOW_def)
  have h4: "\<forall>c \<in> set example_calls.
      in_window (now_lookup (example_runtime 1000)) (fst c) \<and>
      (getClientIp (snd c) = example_client \<longrightarrow> scan_post_from example_client c)"
    using w scan_post_from_example[of 2000] by (simp add: example_calls_def)
  have len: "length ?calls = 11" by (simp add: example_calls_def)
  have ip: "getClientIp (snd (?calls ! i)) = example_client" if "i < 11" for i
    using that by (cases i) (simp_all add: example_calls_def example_call_def)
  have e: "earlier_from example_client ?calls i = i" if "i < 11" for i
    using that
    by (cases i) (simp_all add: earlier_from_def example_calls_def example_call_def)
  have t9: "(9::nat) < length ?calls" and t10: "(10::nat) < length ?calls"
    using len by simp_all
  note r9 = first_ten_requests_in_window_proceed[OF h1 h2 h3 h4 t9 ip[of 9]]
  note r10 = first_ten_requests_in_window_proceed[OF h1 h2 h3 h4 t10 ip[of 10]]
  have n: "now_lookup (example_runtime 1000) = 1000" by (simp add: example_runtime_def)
  show ?thesis
    using h2 w r9 r10 unfolding e[of 9, simplified] e[of 10, simplified] n by simp
qed

section \<open>Validation, upstream errors and normalization\<close>

lemma startsWith_append: "startsWith (p @ s) p"
  by (induction p) simp_all

lemma string_includes_prefix: "string_includes (p @ s) p"
proof (cases "p @ s")
  case Nil
  then show ?thesis by simp
next
  case (Cons c cs)
  have "startsWith (c # cs) p" using startsWith_append[of p s] Cons by simp
  then show ?thesis using Cons by simp
qed

lemma handler_scan_not_limited:
  assumes "req_method req = ''POST''"
    and "GEMINI_API_KEY rt = Some apiKey" and "apiKey \<noteq> []"
    and "\<not> fst (isRateLimited (now_cleanup rt) (now_lookup rt) (getClientIp req) store)"
  shows "response (handler_scan rt req store) =
       fst (handler_scan_steps rt apiKey (req_body req) (setCorsHeaders_scan new_response))"
    and "upstream_calls (handler_scan rt req store) =
       snd (handler_scan_steps rt apiKey (req_body req) (setCorsHeaders_scan new_response))"
  using assms by (simp_all add: handler_scan_def Let_def isConfigured_def)

lemma callGeminiVision_upstream_error:
  assumes "fetch' (geminiRequest img mimeType apiKey) = Resolved r"
    and "\<not> ok r" and "text_result r = Inr errorText"
  shows "callGeminiVision fetch' img mimeType apiKey =
     Inl (Error (''Gemini API error ('' @ string_of_nat (status r) @ ''): '' @ take 200 errorText))"
  using assms by (simp add: callGeminiVision_def)

lemma catch_upstream_error:
  "handler_scan_catch (Error (''Gemini API error'' @ rest)) res =
     status_json 502
       (Obj [(''error'', Str ''External API error''),
             (''message'', Str (''Gemini API error'' @ rest))]) res"
  using string_includes_prefix[of "''Gemini API error''" rest]
  by (simp add: handler_scan_catch_def)

lemma string_of_nat_10: "string_of_nat 10 = ''10''"
  by code_simp

lemma mime_check:
  "(\<not> truthy mimeType \<or> mimeType \<notin> set (map Str allowedMimeTypes)) \<longleftrightarrow>
   (mimeType \<noteq> Str ''image/jpeg'' \<and> mimeType \<noteq> Str ''image/png'')"
  by (auto simp add: allowedMimeTypes_def)

lemma validateImagePayload_errors:
  assumes "stripDataUrlPrefix imageBase64 = Inr clean"
  shows "validateImagePayload imageBase64 mimeType =
     Inr \<lparr>valid = (validation_errors imageBase64 mimeType clean = []),
          errors = validation_errors imageBase64 mimeType clean,
          cleanBase64 = clean\<rparr>"
proof -
  have j: "join '', '' allowedMimeTypes = ''image/jpeg, image/png''"
    by (simp add: allowedMimeTypes_def)
  have sz: "estimatedSizeBytes clean > of_nat maxSizeBytes \<longleftrightarrow>
      of_nat (length clean) * 3 / 4 > (10 * 1024 * 1024 :: rat)"
    by (simp add: estimatedSizeBytes_def maxSizeBytes_def maxSizeMB_def)
  show ?thesis
    unfolding validateImagePayload_def Let_def mime_check
    by (simp add: assms sz j maxSizeMB_def string_of_nat_10 validation_errors_def)
qed

lemma validate_example:
  "validateImagePayload (Str ''AAAA'') (Str ''image/png'') =
     Inr \<lparr>valid = True, errors = [], cleanBase64 = ''AAAA''\<rparr>"
proof -
  have "stripDataUrlPrefix (Str ''AAAA'') = Inr ''AAAA''"
    by (simp add: stripDataUrlPrefix_def match_data_url_def)
  from validateImagePayload_errors[OF this, of "Str ''image/png''"] show ?thesis
    by (simp add: validation_errors_def)
qed

lemma destructure_example:
  "destructure_body (req_body (example_request m example_body)) = Inr (Str ''AAAA'', Str ''image/png'')"
  by (simp add: destructure_body_def example_request_def example_body_def)

lemma not_limited_on_empty: "\<not> fst (isRateLimited now_c now ip [])"
  by (simp add: isRateLimited_def cleanupRateLimitStore_def)

text \<open>
  C8.  An exception caught by the handler is mapped by its message: a message that
  contains \<^verbatim>\<open>Gemini API error\<close> gives 502 with error \<^verbatim>\<open>External API error\<close> and the
  message itself; otherwise a message that contains \<^verbatim>\<open>fetch\<close> gives 500 with error
  \<^verbatim>\<open>Network error\<close>; any other message gives 500 with error
  \<^verbatim>\<open>Internal server error\<close>.  An exception thrown by the upstream call reaches this
  mapping.  A non-success upstream status, with a readable body, throws the message
  \<^verbatim>\<open>Gemini API error (<status>): <excerpt>\<close>, whose excerpt is the first 200 characters
  of the body at most, and so gives 502.
\<close>

theorem exceptions_are_mapped_to_statuses:
  "(string_includes (message e) ''Gemini API error'' \<longrightarrow>
      handler_scan_catch e res =
        status_json 502
          (Obj [(''error'', Str ''External API error''), (''message'', Str (message e))]) res) \<and>
   (\<not> string_includes (message e) ''Gemini API error'' \<and> string_includes (message e) ''fetch'' \<longrightarrow>
      handler_scan_catch e res =
        status_json 500
          (Obj [(''error'', Str ''Network error''),
                (''message'', Str ''Failed to connect to Gemini API'')]) res) \<and>
   (\<not> string_includes (message e) ''Gemini API error'' \<and> \<not> string_includes (message e) ''fetch'' \<longrightarrow>
      handler_scan_catch e res =
        status_json 500
          (Obj [(''error'', Str ''Internal server error''),
                (''message'', Str ''An unexpected error occurred'')]) res) \<and>
   (req_method req = ''POST'' \<and> GEMINI_API_KEY rt = Some apiKey \<and> apiKey \<noteq> [] \<and>
    \<not> fst (isRateLimited (now_cleanup rt) (now_lookup rt) (getClientIp req) store) \<and>
    destructure_body (req_body req) = Inr (img, mimeType) \<and>
    validateImagePayload img mimeType = Inr v \<and> valid v \<and>
    callGeminiVision (fetch rt) (cleanBase64 v) mimeType apiKey = Inl e \<longrightarrow>
      response (handler_scan rt req store) =
        handler_scan_catch e (setCorsHeaders_scan new_response)) \<and>
   (fetch rt (geminiRequest clean mimeType apiKey) = Resolved r \<and> \<not> ok r \<and>
    text_result r = Inr errorText \<longrightarrow>
      callGeminiVision (fetch rt) clean mimeType apiKey =
        Inl (Error (''Gemini API error ('' @ string_of_nat (status r) @ ''): ''
                    @ take 200 errorText)) \<and>
      length (take 200 errorText) \<le> 200 \<and>
      res_status (handler_scan_catch
        (Error (''Gemini API error ('' @ string_of_nat (status r) @ ''): '' @ take 200 errorText))
        res) = 502)"
proof -
  have a: "string_includes (message e) ''Gemini API error'' \<longrightarrow>
      handler_scan_catch e res =
        status_json 502
          (Obj [(''error'', Str ''External API error''), (''message'', Str (message e))]) res"
    by (simp add: handler_scan_catch_def)
  have b: "\<not> string_includes (message e) ''Gemini API error'' \<and> string_includes (message e) ''fetch'' \<longrightarrow>
      handler_scan_catch e res =
        status_json 500
          (Obj [(''error'', Str ''Network error''),
                (''message'', Str ''Failed to connect to Gemini API'')]) res"
    by (simp add: handler_scan_catch_def)
  have c: "\<not> string_includes (message e) ''Gemini API error'' \<and> \<not> string_includes (message e) ''fetch'' \<longrightarrow>
      handler_scan_catch e res =
        status_json 500
          (Obj [(''error'', Str ''Internal server error''),
                (''message'', Str ''An unexpected error occurred'')]) res"
    by (simp add: handler_scan_catch_def)
  have d: "req_method req = ''POST'' \<and> GEMINI_API_KEY rt = Some apiKey \<and> apiKey \<noteq> [] \<and>
    \<not> fst (isRateLimited (now_cleanup rt) (now_lookup rt) (getClientIp req) store) \<and>
    destructure_body (req_body req) = Inr (img, mimeType) \<and>
    validateImagePayload img mimeType = Inr v \<and> valid v \<and>
    callGeminiVision (fetch rt) (cleanBase64 v) mimeType apiKey = Inl e \<longrightarrow>
      response (handler_scan rt req store) =
        handler_scan_catch e (setCorsHeaders_scan new_response)"
  proof
    assume h: "req_method req = ''POST'' \<and> GEMINI_API_KEY rt = Some apiKey \<and> apiKey \<noteq> [] \<and>
      \<not> fst (isRateLimited (now_cleanup rt) (now_lookup rt) (getClientIp req) store) \<and>
      destructure_body (req_body req) = Inr (img, mimeType) \<and>
      validateImagePayload img mimeType = Inr v \<and> valid v \<and>
      callGeminiVision (fetch rt) (cleanBase64 v) mimeType apiKey = Inl e"
    then have "response (handler_scan rt req store) =
       fst (handler_scan_steps rt apiKey (req_body req) (setCorsHeaders_scan new_response))"
      by (intro handler_scan_not_limited(1)) simp_all
    also have "\<dots> = handler_scan_catch e (setCorsHeaders_scan new_response)"
      using h by (simp add: handler_scan_steps_def)
    finally show "response (handler_scan rt req store) =
        handler_scan_catch e (setCorsHeaders_scan new_response)" .
  qed
  have e: "fetch rt (geminiRequest clean mimeType apiKey) = Resolved r \<and> \<not> ok r \<and>
    text_result r = Inr errorText \<longrightarrow>
      callGeminiVision (fetch rt) clean mimeType apiKey =
        Inl (Error (''Gemini API error ('' @ string_of_nat (status r) @ ''): ''
                    @ take 200 errorText)) \<and>
      length (take 200 errorText) \<le> 200 \<and>
      res_status (handler_scan_catch
        (Error (''Gemini API error ('' @ string_of_nat (status r) @ ''): '' @ take 200 errorText))
        res) = 502"
    using catch_upstream_error[of "'' ('' @ string_of_nat (status r) @ ''): '' @ take 200 errorText" res]
    by (simp add: callGeminiVision_upstream_error status_json_def)
  from a b c d e show ?thesis by blast
qed

theorem exceptions_are_mapped_to_statuses_witness:
  "string_includes ''Gemini API error (503): overloaded'' ''Gemini API error'' \<and>
   response (handler_scan runtime_upstream_error (example_request ''POST'' example_body) []) =
     status_json 502
       (Obj [(''error'', Str ''External API error''),
             (''message'', Str ''Gemini API error (503): overloaded'')])
       (setCorsHeaders_scan new_response) \<and>
   \<not> string_includes ''fetch failed'' ''Gemini API error'' \<and>
   string_includes ''fetch failed'' ''fetch'' \<and>
   response (handler_scan runtime_network_failure (example_request ''POST'' example_body) []) =
     status_json 500
       (Obj [(''error'', Str ''Network error''),
             (''message'', Str ''Failed to connect to Gemini API'')])
       (setCorsHeaders_scan new_response) \<and>
   \<not> string_includes ''Unexpected end of JSON input'' ''Gemini API error'' \<and>
   \<not> string_includes ''Unexpected end of JSON input'' ''fetch'' \<and>
   handler_scan_catch (SyntaxError ''Unexpected end of JSON input'') new_response =
     status_json 500
       (Obj [(''error'', Str ''Internal server error''),
             (''message'', Str ''An unexpected error occurred'')]) new_response"
proof -
  let ?req = "example_request ''POST'' example_body"
  let ?v = "\<lparr>valid = True, errors = [], cleanBase64 = ''AAAA''\<rparr>"
  let ?up = "Error ''Gemini API error (503): overloaded''"
  let ?net = "TypeError ''fetch failed''"
  let ?syn = "SyntaxError ''Unexpected end of JSON input''"
  have m: "req_method ?req = ''POST''" by (simp add: example_request_def)
  have k1: "GEMINI_API_KEY runtime_upstream_error = Some ''secret''"
    and k2: "GEMINI_API_KEY runtime_network_failure = Some ''secret''"
    by (simp_all add: runtime_upstream_error_def runtime_network_failure_def example_runtime_def)
  have s: "''secret'' \<noteq> []" by simp
  have c2: "callGeminiVision (fetch runtime_network_failure) (cleanBase64 ?v) (Str ''image/png'')
      ''secret'' = Inl ?net"
    by (simp add: callGeminiVision_def runtime_network_failure_def)
  have i1: "string_includes (message ?up) ''Gemini API error''" by code_simp
  have i2: "\<not> string_includes (message ?net) ''Gemini API error'' \<and>
      string_includes (message ?net) ''fetch''" by code_simp
  have i3: "\<not> string_includes (message ?syn) ''Gemini API error'' \<and>
      \<not> string_includes (message ?syn) ''fetch''" by code_simp
  have v: "valid ?v" by simp
  let ?r = "\<lparr>ok = False, status = 503, text_result = Inr ''overloaded'',
      json_result = Inl (SyntaxError ''Unexpected end of JSON input'')\<rparr>"
  note t1 = exceptions_are_mapped_to_statuses[where e = ?up
      and res = "setCorsHeaders_scan new_response" and req = ?req
      and rt = runtime_upstream_error and apiKey = "''secret''" and store = "[]"
      and img = "Str ''AAAA''" and mimeType = "Str ''image/png''" and v = ?v
      and clean = "''AAAA''" and r = ?r and errorText = "''overloaded''"]
  have f1: "fetch runtime_upstream_error (geminiRequest ''AAAA'' (Str ''image/png'') ''secret'')
      = Resolved ?r \<and> \<not> ok ?r \<and> text_result ?r = Inr ''overloaded''"
    by (simp add: runtime_upstream_error_def)
  have n503: "string_of_nat 503 = ''503''" by code_simp
  have c1: "callGeminiVision (fetch runtime_upstream_error) (cleanBase64 ?v) (Str ''image/png'')
      ''secret'' = Inl ?up"
    using t1 f1 n503 by simp
  note t2 = exceptions_are_mapped_to_statuses[of ?net "setCorsHeaders_scan new_response" ?req
      runtime_network_failure "''secret''" "[]" "Str ''AAAA''" "Str ''image/png''" ?v]
  note t3 = exceptions_are_mapped_to_statuses[of ?syn new_response]
  have r1: "response (handler_scan runtime_upstream_error ?req []) =
      status_json 502
       (Obj [(''error'', Str ''External API error''), (''message'', Str (message ?up))])
       (setCorsHeaders_scan new_response)"
    using t1 m k1 s not_limited_on_empty destructure_example validate_example v c1 i1 by metis
  have r2: "response (handler_scan runtime_network_failure ?req []) =
      status_json 500
       (Obj [(''error'', Str ''Network error''),
             (''message'', Str ''Failed to connect to Gemini API'')])
       (setCorsHeaders_scan new_response)"
    using t2 m k2 s not_limited_on_empty destructure_example validate_example v c2 i2 by metis
  have r3: "handler_scan_catch ?syn new_response =
     status_json 500
       (Obj [(''error'', Str ''Internal server error''),
             (''message'', Str ''An unexpected error occurred'')]) new_response"
    using t3 i3 by blast
  show ?thesis using r1 r2 r3 i1 i2 i3 by simp
qed












section \<open>Input validation\<close>

lemma destructure_body_present:
  "\<not> nullish b \<Longrightarrow> destructure_body b = Inr (own_prop b ''imageBase64'', own_prop b ''mimeType'')"
  by (cases b) (simp_all add: destructure_body_def)

lemma stripDataUrlPrefix_string_or_falsy:
  assumes "\<not> truthy img \<or> (\<exists>s. img = Str s)"
  shows "\<exists>clean. stripDataUrlPrefix img = Inr clean"
  using assms by (auto simp add: stripDataUrlPrefix_def split: option.split)

lemma validation_errors_empty_iff:
  "validation_errors img mimeType clean = [] \<longleftrightarrow>
     \<not> ((mimeType \<noteq> Str ''image/jpeg'' \<and> mimeType \<noteq> Str ''image/png'') \<or> \<not> truthy img \<or>
        of_nat (length clean) * 3 / 4 > (10 * 1024 * 1024 :: rat))"
  by (simp add: validation_errors_def)

lemma handler_scan_steps_validated:
  assumes "\<not> nullish b"
    and "stripDataUrlPrefix (own_prop b ''imageBase64'') = Inr clean"
  shows "handler_scan_steps rt apiKey b res =
     (if validation_errors (own_prop b ''imageBase64'') (own_prop b ''mimeType'') clean \<noteq> [] then
        (status_json 400
           (Obj [(''error'', Str ''Invalid request''),
                 (''details'', Arr (map Str
                    (validation_errors (own_prop b ''imageBase64'') (own_prop b ''mimeType'') clean)))])
           res, [])
      else
        (case callGeminiVision (fetch rt) clean (own_prop b ''mimeType'') apiKey of
           Inl e \<Rightarrow> (handler_scan_catch e res, [geminiRequest clean (own_prop b ''mimeType'') apiKey])
         | Inr g \<Rightarrow> (status_json 200 (parseGeminiResponse (JSON_parse rt) g) res,
                     [geminiRequest clean (own_prop b ''mimeType'') apiKey])))"
  by (simp add: handler_scan_steps_def destructure_body_present[OF assms(1)]
      validateImagePayload_errors[OF assms(2)] split: sum.split)

lemma strip_example: "stripDataUrlPrefix (Str ''AAAA'') = Inr ''AAAA''"
  by (simp add: stripDataUrlPrefix_def match_data_url_def)

text \<open>
  Validation on the bodies it was written for.  Take a \<^verbatim>\<open>POST\<close> to the scan handler with
  the credential configured and the rate limit not exceeded, whose body is present and
  whose \<^verbatim>\<open>imageBase64\<close> is a string or is empty or missing.  It is answered 400 exactly
  when \<^verbatim>\<open>mimeType\<close> is not exactly \<^verbatim>\<open>image/jpeg\<close> or \<^verbatim>\<open>image/png\<close>, or \<^verbatim>\<open>imageBase64\<close> is
  empty or missing, or the estimate \<open>length * 3 / 4\<close> of the prefix-stripped payload
  exceeds 10 MiB.  The 400 response lists the messages of the checks that failed and
  no upstream request is sent; otherwise exactly one upstream request is sent.
\<close>

lemma validation_failure_gives_400:
  assumes "req_method req = ''POST''"
    and "GEMINI_API_KEY rt = Some apiKey" and "apiKey \<noteq> []"
    and "\<not> fst (isRateLimited (now_cleanup rt) (now_lookup rt) (getClientIp req) store)"
    and "\<not> nullish (req_body req)"
    and "img = own_prop (req_body req) ''imageBase64''"
    and "mimeType = own_prop (req_body req) ''mimeType''"
    and "\<not> truthy img \<or> (\<exists>s. img = Str s)"
  shows "\<exists>clean. stripDataUrlPrefix img = Inr clean \<and>
     (res_status (response (handler_scan rt req store)) = 400 \<longleftrightarrow>
      ((mimeType \<noteq> Str ''image/jpeg'' \<and> mimeType \<noteq> Str ''image/png'') \<or> \<not> truthy img \<or>
       of_nat (length clean) * 3 / 4 > (10 * 1024 * 1024 :: rat))) \<and>
     (res_status (response (handler_scan rt req store)) = 400 \<longrightarrow>
        upstream_calls (handler_scan rt req store) = [] \<and>
        res_body (response (handler_scan rt req store)) =
          Some (Obj [(''error'', Str ''Invalid request''),
                     (''details'', Arr (map Str (validation_errors img mimeType clean)))])) \<and>
     (res_status (response (handler_scan rt req store)) \<noteq> 400 \<longrightarrow>
        upstream_calls (handler_scan rt req store) = [geminiRequest clean mimeType apiKey])"
proof -
  let ?res = "setCorsHeaders_scan new_response"
  obtain clean where clean: "stripDataUrlPrefix img = Inr clean"
    using stripDataUrlPrefix_string_or_falsy[OF assms(8)] by blast
  have r: "response (handler_scan rt req store) = fst (handler_scan_steps rt apiKey (req_body req) ?res)"
    and u: "upstream_calls (handler_scan rt req store) = snd (handler_scan_steps rt apiKey (req_body req) ?res)"
    using handler_scan_not_limited[OF assms(1-4)] by simp_all
  have steps: "handler_scan_steps rt apiKey (req_body req) ?res =
     (if validation_errors img mimeType clean \<noteq> [] then
        (status_json 400
           (Obj [(''error'', Str ''Invalid request''),
                 (''details'', Arr (map Str (validation_errors img mimeType clean)))]) ?res, [])
      else
        (case callGeminiVision (fetch rt) clean mimeType apiKey of
           Inl e \<Rightarrow> (handler_scan_catch e ?res, [geminiRequest clean mimeType apiKey])
         | Inr g \<Rightarrow> (status_json 200 (parseGeminiResponse (JSON_parse rt) g) ?res,
                     [geminiRequest clean mimeType apiKey])))"
    using handler_scan_steps_validated[OF assms(5), of clean rt apiKey ?res] clean
    unfolding assms(6) assms(7) by simp
  have catch: "res_status (handler_scan_catch e ?res) \<noteq> 400" for e
    using status_catch[of e ?res] by auto
  show ?thesis
  proof (cases "validation_errors img mimeType clean = []")
    case True
    then have "res_status (response (handler_scan rt req store)) \<noteq> 400 \<and>
        upstream_calls (handler_scan rt req store) = [geminiRequest clean mimeType apiKey]"
      unfolding r u steps by (simp add: catch status_json_def split: sum.split)
    then show ?thesis
      using clean True validation_errors_empty_iff[of img mimeType clean] by blast
  next
    case False
    then have "res_status (response (handler_scan rt req store)) = 400 \<and>
        upstream_calls (handler_scan rt req store) = [] \<and>
        res_body (response (handler_scan rt req store)) =
          Some (Obj [(''error'', Str ''Invalid request''),
                     (''details'', Arr (map Str (validation_errors img mimeType clean)))])"
      unfolding r u steps by (simp add: status_json_def)
    then show ?thesis
      using clean False validation_errors_empty_iff[of img mimeType clean] by blast
  qed
qed

lemma validation_failure_gives_400_example:
  "\<not> nullish (req_body (example_request ''POST'' gif_body)) \<and>
   own_prop (req_body (example_request ''POST'' gif_body)) ''mimeType'' = Str ''image/gif'' \<and>
   res_status (response (handler_scan (example_runtime 1000)
       (example_request ''POST'' gif_body) [])) = 400 \<and>
   upstream_calls (handler_scan (example_runtime 1000) (example_request ''POST'' gif_body) []) = [] \<and>
   res_body (response (handler_scan (example_runtime 1000)
       (example_request ''POST'' gif_body) [])) =
     Some (Obj [(''error'', Str ''Invalid request''),
                (''details'', Arr [Str ''Invalid mimeType. Allowed: image/jpeg, image/png''])]) \<and>
   res_status (response (handler_scan (example_runtime 1000)
       (example_request ''POST'' example_body) [])) \<noteq> 400 \<and>
   upstream_calls (handler_scan (example_runtime 1000) (example_request ''POST'' example_body) []) =
     [geminiRequest ''AAAA'' (Str ''image/png'') ''secret'']"
proof -
  let ?rt = "example_runtime 1000"
  let ?bad = "example_request ''POST'' gif_body"
  let ?good = "example_request ''POST'' example_body"
  have m: "req_method ?bad = ''POST''" "req_method ?good = ''POST''"
    by (simp_all add: example_request_def)
  have k: "GEMINI_API_KEY ?rt = Some ''secret''" by (simp add: example_runtime_def)
  have s: "''secret'' \<noteq> []" by simp
  have b: "\<not> nullish (req_body ?bad)" "\<not> nullish (req_body ?good)"
    by (simp_all add: example_request_def gif_body_def example_body_def)
  have i: "Str ''AAAA'' = own_prop (req_body ?bad) ''imageBase64''"
      "Str ''AAAA'' = own_prop (req_body ?good) ''imageBase64''"
    by (simp_all add: example_request_def gif_body_def example_body_def)
  have t: "Str ''image/gif'' = own_prop (req_body ?bad) ''mimeType''"
      "Str ''image/png'' = own_prop (req_body ?good) ''mimeType''"
    by (simp_all add: example_request_def gif_body_def example_body_def)
  have st: "\<not> truthy (Str ''AAAA'') \<or> (\<exists>s. Str ''AAAA'' = Str s)" by simp
  have small: "\<not> of_nat (length ''AAAA'') * 3 / 4 > (10 * 1024 * 1024 :: rat)" by simp
  have errs: "validation_errors (Str ''AAAA'') (Str ''image/gif'') ''AAAA''
      = [''Invalid mimeType. Allowed: image/jpeg, image/png'']"
    by (simp add: validation_errors_def)
  have small: "\<not> of_nat (length ''AAAA'') * 3 / 4 > (10 * 1024 * 1024 :: rat)" by simp
  from validation_failure_gives_400[OF m(1) k s not_limited_on_empty b(1) i(1) t(1) st]
  obtain c1 where c1: "stripDataUrlPrefix (Str ''AAAA'') = Inr c1"
    and iff1: "res_status (response (handler_scan ?rt ?bad [])) = 400 \<longleftrightarrow>
      ((Str ''image/gif'' \<noteq> Str ''image/jpeg'' \<and> Str ''image/gif'' \<noteq> Str ''image/png'') \<or>
       \<not> truthy (Str ''AAAA'') \<or> of_nat (length c1) * 3 / 4 > (10 * 1024 * 1024 :: rat))"
    and body1: "res_status (response (handler_scan ?rt ?bad [])) = 400 \<longrightarrow>
        upstream_calls (handler_scan ?rt ?bad []) = [] \<and>
        res_body (response (handler_scan ?rt ?bad [])) =
          Some (Obj [(''error'', Str ''Invalid request''),
                     (''details'', Arr (map Str
                        (validation_errors (Str ''AAAA'') (Str ''image/gif'') c1)))])"
    by blast
  have c1_eq: "c1 = ''AAAA''" using c1 strip_example by simp
  have gif: "Str ''image/gif'' \<noteq> Str ''image/jpeg'' \<and> Str ''image/gif'' \<noteq> Str ''image/png''"
    by simp
  have s400: "res_status (response (handler_scan ?rt ?bad [])) = 400"
    using iff1 gif by blast
  have bad: "res_status (response (handler_scan ?rt ?bad [])) = 400 \<and>
      upstream_calls (handler_scan ?rt ?bad []) = [] \<and>
      res_body (response (handler_scan ?rt ?bad [])) =
        Some (Obj [(''error'', Str ''Invalid request''),
                   (''details'', Arr [Str ''Invalid mimeType. Allowed: image/jpeg, image/png''])])"
    using s400 body1 errs unfolding c1_eq by simp
  from validation_failure_gives_400[OF m(2) k s not_limited_on_empty b(2) i(2) t(2) st]
  obtain c2 where c2: "stripDataUrlPrefix (Str ''AAAA'') = Inr c2"
    and iff2: "res_status (response (handler_scan ?rt ?good [])) = 400 \<longleftrightarrow>
      ((Str ''image/png'' \<noteq> Str ''image/jpeg'' \<and> Str ''image/png'' \<noteq> Str ''image/png'') \<or>
       \<not> truthy (Str ''AAAA'') \<or> of_nat (length c2) * 3 / 4 > (10 * 1024 * 1024 :: rat))"
    and calls2: "res_status (response (handler_scan ?rt ?good [])) \<noteq> 400 \<longrightarrow>
        upstream_calls (handler_scan ?rt ?good []) = [geminiRequest c2 (Str ''image/png'') ''secret'']"
    by blast
  have c2_eq: "c2 = ''AAAA''" using c2 strip_example by simp
  have not400: "res_status (response (handler_scan ?rt ?good [])) \<noteq> 400"
    using iff2 small unfolding c2_eq by simp
  have good: "res_status (response (handler_scan ?rt ?good [])) \<noteq> 400 \<and>
      upstream_calls (handler_scan ?rt ?good []) = [geminiRequest ''AAAA'' (Str ''image/png'') ''secret'']"
    using not400 calls2 unfolding c2_eq by blast
  show ?thesis using bad good b(1) t(1) by simp
qed

text \<open>
  C5 at a body of the wrong type.  The body \<^verbatim>\<open>{imageBase64: 123, mimeType: "image/gif"}\<close>
  has a \<^verbatim>\<open>mimeType\<close> that is not allowed, and \<^verbatim>\<open>validateImagePayload\<close> has recorded
  \<^verbatim>\<open>Invalid mimeType\<close> when \<^verbatim>\<open>stripDataUrlPrefix\<close> calls \<^verbatim>\<open>match\<close> on the number and throws:
  the list of errors is lost and the response is the generic 500
  \<^verbatim>\<open>Internal server error\<close>.  A \<^verbatim>\<open>POST\<close> without a body is answered the same 500, the
  destructuring of \<^verbatim>\<open>req.body\<close> throwing before validation.  The neighbouring bodies of
  the wrong type are answered 400 with the list of errors:
  \<^verbatim>\<open>{imageBase64: 0, mimeType: "image/gif"}\<close>, whose \<^verbatim>\<open>imageBase64\<close> is falsy, and
  \<^verbatim>\<open>{imageBase64: "AAAA", mimeType: 5}\<close>, whose \<^verbatim>\<open>mimeType\<close> is a number.
\<close>

theorem ill_typed_image_or_missing_body_gives_500:
  "validateImagePayload (Num 123) (Str ''image/gif'') =
     Inl (TypeError ''imageBase64.match is not a function'') \<and>
   validateImagePayload (Num 0) (Str ''image/gif'') =
     Inr \<lparr>valid = False,
          errors = [''Invalid mimeType. Allowed: image/jpeg, image/png'', ''imageBase64 is required''],
          cleanBase64 = []\<rparr> \<and>
   validateImagePayload (Str ''AAAA'') (Num 5) =
     Inr \<lparr>valid = False, errors = [''Invalid mimeType. Allowed: image/jpeg, image/png''],
          cleanBase64 = ''AAAA''\<rparr> \<and>
   res_status (response (handler_scan (example_runtime 1000)
       (example_request ''POST'' nonstring_body) [])) = 500 \<and>
   res_body (response (handler_scan (example_runtime 1000)
       (example_request ''POST'' nonstring_body) [])) =
     Some (Obj [(''error'', Str ''Internal server error''),
                (''message'', Str ''An unexpected error occurred'')]) \<and>
   res_status (response (handler_scan (example_runtime 1000)
       (example_request ''POST'' Undefined) [])) = 500 \<and>
   res_body (response (handler_scan (example_runtime 1000)
       (example_request ''POST'' Undefined) [])) =
     Some (Obj [(''error'', Str ''Internal server error''),
                (''message'', Str ''An unexpected error occurred'')]) \<and>
   res_status (response (handler_scan (example_runtime 1000)
       (example_request ''POST'' zero_image_body) [])) = 400 \<and>
   res_body (response (handler_scan (example_runtime 1000)
       (example_request ''POST'' zero_image_body) [])) =
     Some (Obj [(''error'', Str ''Invalid request''),
                (''details'', Arr [Str ''Invalid mimeType. Allowed: image/jpeg, image/png'',
                                   Str ''imageBase64 is required''])]) \<and>
   res_status (response (handler_scan (example_runtime 1000)
       (example_request ''POST'' number_mime_body) [])) = 400 \<and>
   res_body (response (handler_scan (example_runtime 1000)
       (example_request ''POST'' number_mime_body) [])) =
     Some (Obj [(''error'', Str ''Invalid request''),
                (''details'', Arr [Str ''Invalid mimeType. Allowed: image/jpeg, image/png''])])"
proof -
  let ?rt = "example_runtime 1000"
  let ?res = "setCorsHeaders_scan new_response"
  let ?e = "TypeError ''imageBase64.match is not a function''"
  let ?d = "TypeError (''Cannot destructure property '' @ [CHR 0x27] @ ''imageBase64'' @ [CHR 0x27]
                        @ '' of '' @ [CHR 0x27] @ ''req.body'' @ [CHR 0x27] @ '' as it is undefined.'')"
  let ?internal = "Obj [(''error'', Str ''Internal server error''),
              (''message'', Str ''An unexpected error occurred'')]"
  have m: "req_method (example_request ''POST'' b) = ''POST''" for b
    by (simp add: example_request_def)
  have body: "req_body (example_request ''POST'' b) = b" for b
    by (simp add: example_request_def)
  have k: "GEMINI_API_KEY ?rt = Some ''secret''" by (simp add: example_runtime_def)
  have s: "''secret'' \<noteq> []" by simp
  have r: "response (handler_scan ?rt (example_request ''POST'' b) []) =
      fst (handler_scan_steps ?rt ''secret'' b ?res)" for b
    using handler_scan_not_limited(1)[OF m k s not_limited_on_empty, of b] by (simp add: body)
  have v1: "validateImagePayload (Num 123) (Str ''image/gif'') = Inl ?e"
    by (simp add: validateImagePayload_def stripDataUrlPrefix_def Let_def)
  have z: "stripDataUrlPrefix (Num 0) = Inr []"
    by (simp add: stripDataUrlPrefix_def)
  have v2: "validateImagePayload (Num 0) (Str ''image/gif'') =
     Inr \<lparr>valid = False,
          errors = [''Invalid mimeType. Allowed: image/jpeg, image/png'', ''imageBase64 is required''],
          cleanBase64 = []\<rparr>"
    by (simp add: validateImagePayload_errors[OF z] validation_errors_def)
  have v3: "validateImagePayload (Str ''AAAA'') (Num 5) =
     Inr \<lparr>valid = False, errors = [''Invalid mimeType. Allowed: image/jpeg, image/png''],
          cleanBase64 = ''AAAA''\<rparr>"
    by (simp add: validateImagePayload_errors[OF strip_example] validation_errors_def)
  have inc1: "\<not> string_includes (message ?e) ''Gemini API error'' \<and>
      \<not> string_includes (message ?e) ''fetch''"
    by code_simp
  have inc2: "\<not> string_includes (message ?d) ''Gemini API error'' \<and>
      \<not> string_includes (message ?d) ''fetch''"
    by code_simp
  have c1: "handler_scan_catch ?e ?res = status_json 500 ?internal ?res"
    using inc1 by (simp add: handler_scan_catch_def)
  have c2: "handler_scan_catch ?d ?res = status_json 500 ?internal ?res"
    using inc2 by (simp only: handler_scan_catch_def if_False)
  have s1: "fst (handler_scan_steps ?rt ''secret'' nonstring_body ?res) = status_json 500 ?internal ?res"
    using c1 by (simp add: handler_scan_steps_def destructure_body_def nonstring_body_def v1)
  have s2: "fst (handler_scan_steps ?rt ''secret'' Undefined ?res) = status_json 500 ?internal ?res"
    using c2 by (simp add: handler_scan_steps_def destructure_body_def)
  have s3: "fst (handler_scan_steps ?rt ''secret'' zero_image_body ?res) =
      status_json 400
        (Obj [(''error'', Str ''Invalid request''),
              (''details'', Arr [Str ''Invalid mimeType. Allowed: image/jpeg, image/png'',
                                 Str ''imageBase64 is required''])]) ?res"
    by (simp add: handler_scan_steps_def destructure_body_def zero_image_body_def v2)
  have s4: "fst (handler_scan_steps ?rt ''secret'' number_mime_body ?res) =
      status_json 400
        (Obj [(''error'', Str ''Invalid request''),
              (''details'', Arr [Str ''Invalid mimeType. Allowed: image/jpeg, image/png''])]) ?res"
    by (simp add: handler_scan_steps_def destructure_body_def number_mime_body_def v3)
  show ?thesis
    unfolding r s1 s2 s3 s4 v1 v2 v3 by (simp add: status_json_def)
qed

theorem ill_typed_image_or_missing_body_gives_500_witness:
  "res_status (response (handler_scan (example_runtime 1000)
       (example_request ''POST'' nonstring_body) []))
     \<noteq> res_status (response (handler_scan (example_runtime 1000)
       (example_request ''POST'' zero_image_body) [])) \<and>
   res_status (response (handler_scan (example_runtime 1000)
       (example_request ''POST'' nonstring_body) []))
     \<noteq> res_status (response (handler_scan (example_runtime 1000)
       (example_request ''POST'' number_mime_body) [])) \<and>
   res_status (response (handler_scan (example_runtime 1000)
       (example_request ''POST'' Undefined) [])) \<noteq> 400"
  using ill_typed_image_or_missing_body_gives_500 by simp

text \<open>
  The prefix is stripped, and validation is that of the raw payload, when the subtype
  is one or more letters or \<^verbatim>\<open>+\<close> and the payload is not empty, holds no line terminator
  and has not itself the form of a data URL.
\<close>

lemma match_data_url_prefixed:
  assumes "subtype \<noteq> []" and "list_all is_subtype_char subtype"
    and "payload \<noteq> []" and "list_all (\<lambda>c. \<not> is_line_terminator c) payload"
  shows "match_data_url (''data:image/'' @ subtype @ '';base64,'' @ payload) = Some payload"
proof -
  have all: "\<And>x. x \<in> set subtype \<Longrightarrow> is_subtype_char x"
    using assms(2) by (simp add: list_all_iff)
  have semi: "\<not> is_subtype_char CHR '';''" by (simp add: is_subtype_char_def)
  have tw: "takeWhile is_subtype_char (subtype @ '';base64,'' @ payload) = subtype"
    using all semi by (simp add: takeWhile_append2)
  have dw: "dropWhile is_subtype_char (subtype @ '';base64,'' @ payload) = '';base64,'' @ payload"
    using all semi by (simp add: dropWhile_append2)
  have sw: "startsWith (''data:image/'' @ subtype @ '';base64,'' @ payload) ''data:image/''"
    by (rule startsWith_append)
  have sw2: "startsWith ('';base64,'' @ payload) '';base64,''"
    by (rule startsWith_append)
  have dr: "drop (length ''data:image/'') (''data:image/'' @ subtype @ '';base64,'' @ payload)
      = subtype @ '';base64,'' @ payload"
    by simp
  have dr2: "drop (length '';base64,'') ('';base64,'' @ payload) = payload"
    by simp
  show ?thesis
    unfolding match_data_url_def Let_def dr tw dw dr2
    using sw sw2 assms(1,3,4) by simp
qed

lemma prefixed_payload_validates_as_raw:
  assumes "subtype \<noteq> []" and "list_all is_subtype_char subtype"
    and "payload \<noteq> []" and "list_all (\<lambda>c. \<not> is_line_terminator c) payload"
    and "match_data_url payload = None"
  shows "validateImagePayload (Str (''data:image/'' @ subtype @ '';base64,'' @ payload)) mimeType
     = validateImagePayload (Str payload) mimeType"
proof -
  have a: "stripDataUrlPrefix (Str (''data:image/'' @ subtype @ '';base64,'' @ payload)) = Inr payload"
    using match_data_url_prefixed[OF assms(1-4)] by (simp add: stripDataUrlPrefix_def)
  have b: "stripDataUrlPrefix (Str payload) = Inr payload"
    using assms(3,5) by (simp add: stripDataUrlPrefix_def)
  have e: "validation_errors (Str (''data:image/'' @ subtype @ '';base64,'' @ payload)) mimeType payload
      = validation_errors (Str payload) mimeType payload"
    using assms(3) by (simp add: validation_errors_def)
  show ?thesis
    by (simp only: validateImagePayload_errors[OF a] validateImagePayload_errors[OF b] e)
qed

text \<open>
  C4 at the empty payload.  The data URL \<^verbatim>\<open>data:image/png;base64,\<close> wraps the empty
  payload, but the pattern of \<^verbatim>\<open>stripDataUrlPrefix\<close> asks for one character after the
  comma at least: the prefix stays, validation passes with an estimate of 16.5 bytes
  and the handler sends the prefix upstream as image data, while the raw empty
  payload is rejected with \<^verbatim>\<open>imageBase64 is required\<close> (400) and an estimate of 0.
\<close>

theorem prefix_only_data_url_passes_validation:
  "validateImagePayload (Str ''data:image/png;base64,'') (Str ''image/png'') =
     Inr \<lparr>valid = True, errors = [], cleanBase64 = ''data:image/png;base64,''\<rparr> \<and>
   estimatedSizeBytes ''data:image/png;base64,'' = 33 / 2 \<and>
   validateImagePayload (Str []) (Str ''image/png'') =
     Inr \<lparr>valid = False, errors = [''imageBase64 is required''], cleanBase64 = []\<rparr> \<and>
   estimatedSizeBytes [] = 0 \<and>
   res_status (response (handler_scan (example_runtime 1000)
       (example_request ''POST'' prefix_only_body) [])) = 200 \<and>
   upstream_calls (handler_scan (example_runtime 1000)
       (example_request ''POST'' prefix_only_body) []) =
     [geminiRequest ''data:image/png;base64,'' (Str ''image/png'') ''secret''] \<and>
   res_status (response (handler_scan (example_runtime 1000)
       (example_request ''POST'' empty_image_body) [])) = 400 \<and>
   upstream_calls (handler_scan (example_runtime 1000)
       (example_request ''POST'' empty_image_body) []) = []"
proof -
  let ?rt = "example_runtime 1000"
  let ?p = "example_request ''POST'' prefix_only_body"
  let ?e = "example_request ''POST'' empty_image_body"
  let ?res = "setCorsHeaders_scan new_response"
  have a: "stripDataUrlPrefix (Str ''data:image/png;base64,'') = Inr ''data:image/png;base64,''"
    by (simp add: stripDataUrlPrefix_def match_data_url_def is_subtype_char_def)
  have b: "stripDataUrlPrefix (Str []) = Inr []"
    by (simp add: stripDataUrlPrefix_def)
  have v: "validateImagePayload (Str ''data:image/png;base64,'') (Str ''image/png'') =
       Inr \<lparr>valid = True, errors = [], cleanBase64 = ''data:image/png;base64,''\<rparr> \<and>
     estimatedSizeBytes ''data:image/png;base64,'' = 33 / 2 \<and>
     validateImagePayload (Str []) (Str ''image/png'') =
       Inr \<lparr>valid = False, errors = [''imageBase64 is required''], cleanBase64 = []\<rparr> \<and>
     estimatedSizeBytes [] = 0"
    by (simp add: validateImagePayload_errors[OF a] validateImagePayload_errors[OF b]
        validation_errors_def estimatedSizeBytes_def)
  have m: "req_method ?p = ''POST''" "req_method ?e = ''POST''"
    by (simp_all add: example_request_def)
  have k: "GEMINI_API_KEY ?rt = Some ''secret''" by (simp add: example_runtime_def)
  have s: "''secret'' \<noteq> []" by simp
  have dp: "destructure_body (req_body ?p) = Inr (Str ''data:image/png;base64,'', Str ''image/png'')"
    by (simp add: destructure_body_def example_request_def prefix_only_body_def)
  have de: "destructure_body (req_body ?e) = Inr (Str [], Str ''image/png'')"
    by (simp add: destructure_body_def example_request_def empty_image_body_def)
  have c: "callGeminiVision (fetch ?rt) ''data:image/png;base64,'' (Str ''image/png'') ''secret''
      = Inr example_reply"
    by (simp add: callGeminiVision_def example_runtime_def example_fetch_def)
  have sp: "handler_scan_steps ?rt ''secret'' (req_body ?p) ?res =
      (status_json 200 (parseGeminiResponse (JSON_parse ?rt) example_reply) ?res,
       [geminiRequest ''data:image/png;base64,'' (Str ''image/png'') ''secret''])"
    using v c by (simp add: handler_scan_steps_def dp)
  have se: "handler_scan_steps ?rt ''secret'' (req_body ?e) ?res =
      (status_json 400
         (Obj [(''error'', Str ''Invalid request''),
               (''details'', Arr (map Str [''imageBase64 is required'']))]) ?res, [])"
    using v by (simp add: handler_scan_steps_def de)
  have rp: "res_status (response (handler_scan ?rt ?p [])) = 200 \<and>
      upstream_calls (handler_scan ?rt ?p []) =
        [geminiRequest ''data:image/png;base64,'' (Str ''image/png'') ''secret'']"
    using handler_scan_not_limited[OF m(1) k s not_limited_on_empty] sp
    by (simp add: status_json_def)
  have re: "res_status (response (handler_scan ?rt ?e [])) = 400 \<and>
      upstream_calls (handler_scan ?rt ?e []) = []"
    using handler_scan_not_limited[OF m(2) k s not_limited_on_empty] se
    by (simp add: status_json_def)
  from v rp re show ?thesis by blast
qed

theorem prefix_only_data_url_passes_validation_witness:
  "validateImagePayload (Str ''data:image/png;base64,'') (Str ''image/png'')
     \<noteq> validateImagePayload (Str []) (Str ''image/png'') \<and>
   estimatedSizeBytes ''data:image/png;base64,'' \<noteq> estimatedSizeBytes [] \<and>
   res_status (response (handler_scan (example_runtime 1000)
       (example_request ''POST'' prefix_only_body) []))
     \<noteq> res_status (response (handler_scan (example_runtime 1000)
       (example_request ''POST'' empty_image_body) []))"
  using prefix_only_data_url_passes_validation by simp

end
